theory Spec2Isabelle
  imports Complex_Main "HOL-Library.Multiset"
begin

section \<open>Consolidation controller: data model\<close>

text \<open>
  The embedding follows \<^verbatim>\<open>pkg/controllers/consolidation/controller.go\<close>.
  Go errors are strings (the text of the error), \<^verbatim>\<open>float64\<close> prices and costs are
  idealised as reals, instants are integers (ticks since the zero instant, so that
  \<^verbatim>\<open>IsZero\<close> is equality with 0), and a Go \<^verbatim>\<open>map[string]string\<close> is an association
  list read with \<open>map_of\<close>. Logging and metric counters are left out; every call on the
  kube client, the provisioner's \<^verbatim>\<open>LaunchNodes\<close> and the event recorder is an event
  appended to a trace.
\<close>

type_synonym error = string

type_synonym labels = "(string \<times> string) list"

text \<open>
  Modelled from the spec: the label and annotation keys and the spot capacity type are
  constants of the API packages, which are not part of the controller file. The spec names
  \<^verbatim>\<open>karpenter.sh/do-not-consolidate\<close> and \<^verbatim>\<open>spot\<close>; the other keys carry their usual
  names. The properties below read them as distinct keys only.
\<close>

definition ProvisionerNameLabelKey :: string where
  "ProvisionerNameLabelKey = ''karpenter.sh/provisioner-name''"

definition LabelInstanceTypeStable :: string where
  "LabelInstanceTypeStable = ''node.kubernetes.io/instance-type''"

definition LabelNodeInitialized :: string where
  "LabelNodeInitialized = ''karpenter.sh/initialized''"

definition LabelCapacityType :: string where
  "LabelCapacityType = ''karpenter.sh/capacity-type''"

definition DoNotConsolidateNodeAnnotationKey :: string where
  "DoNotConsolidateNodeAnnotationKey = ''karpenter.sh/do-not-consolidate''"

definition CapacityTypeSpot :: string where
  "CapacityTypeSpot = ''spot''"

text \<open>Indexing a Go map with a missing key gives the zero value, the empty string.\<close>

definition lookup :: "labels \<Rightarrow> string \<Rightarrow> string" where
  "lookup m k = (case map_of m k of None \<Rightarrow> [] | Some v \<Rightarrow> v)"

record Node =
  Name :: string
  Labels :: labels
  Annotations :: labels
  CreationTimestamp :: int
  DeletionTimestamp :: "int option"
  Unschedulable :: bool

text \<open>\<^verbatim>\<open>DeletionTimestamp.IsZero()\<close> on a \<^verbatim>\<open>*metav1.Time\<close>: nil or the zero instant.\<close>

definition IsZero :: "int option \<Rightarrow> bool" where
  "IsZero t = (case t of None \<Rightarrow> True | Some v \<Rightarrow> v = 0)"

text \<open>
  The predicates of the \<^verbatim>\<open>pod\<close> utility package are not part of the controller; a pod
  carries their answers as fields, together with the eviction cost computed by the cost
  model.
\<close>

record Pod =
  PodName :: string
  IsOwnedByNode :: bool
  IsOwnedByDaemonSet :: bool
  IsTerminal :: bool
  IsTerminating :: bool
  HasDoNotEvict :: bool
  IsNotOwned :: bool
  IsProvisionable :: bool
  EvictionCost :: real

record InstanceType =
  ITName :: string
  Price :: real

text \<open>
  \<^verbatim>\<open>Spec.Consolidation\<close> is a pointer to a struct whose \<^verbatim>\<open>Enabled\<close> is a \<^verbatim>\<open>*bool\<close>;
  \<^verbatim>\<open>TTLSecondsUntilExpired\<close> is a \<^verbatim>\<open>*int64\<close>.
\<close>

record Provisioner =
  ProvName :: string
  Consolidation :: "bool option option"
  TTLSecondsUntilExpired :: "int option"

definition BoolValue :: "bool option \<Rightarrow> bool" where
  "BoolValue b = (case b of None \<Rightarrow> False | Some v \<Rightarrow> v)"

record candidateNode =
  node :: Node
  instanceType :: InstanceType
  provisioner :: Provisioner
  disruptionCost :: real
  pods :: "Pod list"

text \<open>
  A node proposed by the scheduler. \<open>Requirements k\<close> is the set of values that
  \<^verbatim>\<open>Requirements.Get(k)\<close> admits, so \<^verbatim>\<open>Has(v)\<close> is membership.
\<close>

record schedNode =
  InstanceTypeOptions :: "InstanceType list"
  Requirements :: "string \<Rightarrow> string set"
  SchedPods :: "Pod list"

text \<open>An existing (in-flight) node of the simulation with the pods placed on it.\<close>

record inflightNode =
  InflightName :: string
  InflightPods :: "Pod list"

datatype consolidateResult =
  consolidateResultUnknown
  | consolidateResultNotPossible
  | consolidateResultDelete
  | consolidateResultDeleteEmpty
  | consolidateResultReplace

record consolidationAction =
  oldNodes :: "Node list"
  actionDisruptionCost :: real
  savings :: real
  result :: consolidateResult
  replacementNode :: "schedNode option"

text \<open>The zero value of the action struct, as a Go composite literal leaves it.\<close>

definition emptyAction :: consolidationAction where
  "emptyAction = \<lparr>oldNodes = [], actionDisruptionCost = 0, savings = 0,
     result = consolidateResultUnknown, replacementNode = None\<rparr>"

datatype ProcessResult =
  ProcessResultNothingToDo
  | ProcessResultConsolidated
  | ProcessResultFailed

section \<open>Helpers that live outside the controller file\<close>

text \<open>
  Modelled from the spec: \<^verbatim>\<open>disruptionCost\<close>, a helper of the package that is not in
  \<^verbatim>\<open>controller.go\<close>. The spec gives \<open>DisruptionCost(pods) = \<Sum> GetPodEvictionCost(p)\<close>.
\<close>

definition podsDisruptionCost :: "Pod list \<Rightarrow> real" where
  "podsDisruptionCost ps = sum_list (map EvictionCost ps)"

text \<open>
  Modelled from the spec: \<^verbatim>\<open>filterByPrice\<close>, a helper of the package that is not in
  \<^verbatim>\<open>controller.go\<close>. The spec says the planner filters the new node's allowable instance
  types "to those strictly cheaper than the old node's price"; the controller passes
  \<^verbatim>\<open>inclusive = false\<close>, and the inclusive variant also keeps equal prices.
\<close>

definition filterByPrice :: "InstanceType list \<Rightarrow> real \<Rightarrow> bool \<Rightarrow> InstanceType list" where
  "filterByPrice options price inclusive =
     filter (\<lambda>it. Price it < price \<or> (inclusive \<and> Price it = price)) options"

text \<open>
  Modelled from the spec: \<^verbatim>\<open>clamp\<close>, a helper of the package that is not in
  \<^verbatim>\<open>controller.go\<close>; the spec writes the lifetime as \<open>clamp((TTL - age)/TTL, 0, 1)\<close>.
\<close>

definition clamp :: "real \<Rightarrow> real \<Rightarrow> real \<Rightarrow> real" where
  "clamp lo v hi = (if v < lo then lo else if v > hi then hi else v)"

section \<open>The environment of a tick\<close>

datatype recorderEvent =
  TerminatingNodeForConsolidation Node
  | LaunchingNodeForConsolidation Node
  | WaitingOnReadinessForConsolidation Node

datatype event =
  ListProvisioners
  | ListPods string
  | ListPodDisruptionBudgets
  | KubeGet string "error + Node"
  | KubePatch string bool "error option"
  | KubeDelete string "error option"
  | LaunchNodes "error + string list"
  | Recorded recorderEvent

type_synonym trace = "event list"

text \<open>
  The collaborators of the controller. The kube client and the provisioner's launch answer
  as a function of the calls made so far, so an answer may change from one call to the
  next; the cluster state, the cloud provider's catalogue, the clock and the simulated
  scheduler are read before any mutation of the tick and are plain functions.
  \<open>sortSlice\<close> is Go's \<^verbatim>\<open>sort.Slice\<close>, given the \<^verbatim>\<open>less\<close> function on elements: the
  library promises a permutation that \<^verbatim>\<open>less\<close> does not contradict and leaves the
  order of the elements that \<^verbatim>\<open>less\<close> does not separate open (the sort is not stable),
  so it is a collaborator too and the properties below assume this promise only.
\<close>

record env =
  listProvisioners :: "trace \<Rightarrow> error + Provisioner list"
  getInstanceTypes :: "Provisioner \<Rightarrow> error + InstanceType list"
  stateNodes :: "Node list"
  isNodeNominated :: "string \<Rightarrow> bool"
  listPods :: "trace \<Rightarrow> string \<Rightarrow> error + Pod list"
  newPDBLimits :: "trace \<Rightarrow> error + (Pod list \<Rightarrow> bool)"
  newScheduler :: "candidateNode \<Rightarrow> error option"
  solve :: "candidateNode \<Rightarrow> error + (schedNode list \<times> inflightNode list)"
  sinceSeconds :: "int \<Rightarrow> real"
  kubeGet :: "trace \<Rightarrow> string \<Rightarrow> error + Node"
  kubePatch :: "trace \<Rightarrow> string \<Rightarrow> bool \<Rightarrow> error option"
  kubeDelete :: "trace \<Rightarrow> Node \<Rightarrow> error option"
  launchNodes :: "trace \<Rightarrow> schedNode option \<Rightarrow> error + string list"
  sortSlice ::
    "(candidateNode \<Rightarrow> candidateNode \<Rightarrow> bool) \<Rightarrow> candidateNode list \<Rightarrow> candidateNode list"

section \<open>Action planner\<close>

text \<open>
  \<^verbatim>\<open>nodeConsolidationOptionReplaceOrDelete\<close>. The scheduler is built over deep copies of
  the state nodes with the candidate excluded; its construction and its \<^verbatim>\<open>Solve\<close> are the
  environment's \<open>newScheduler\<close> and \<open>solve\<close>. Indexing \<^verbatim>\<open>InstanceTypeOptions[0]\<close> happens
  only after the emptiness check, so the list pattern below has no failing branch left.
\<close>

definition nodeConsolidationOptionReplaceOrDelete ::
    "env \<Rightarrow> candidateNode \<Rightarrow> consolidationAction \<times> error option" where
  "nodeConsolidationOptionReplaceOrDelete e cand =
     (case newScheduler e cand of
        Some err \<Rightarrow> (emptyAction\<lparr>result := consolidateResultUnknown\<rparr>,
                      Some (''creating scheduler, '' @ err))
      | None \<Rightarrow>
     (case solve e cand of
        Inl err \<Rightarrow> (emptyAction\<lparr>result := consolidateResultUnknown\<rparr>,
                     Some (''simulating scheduling, '' @ err))
      | Inr (newNodes, inflightNodes) \<Rightarrow>
          if newNodes = [] \<and>
             length (pods cand) = sum_list (map (\<lambda>i. length (InflightPods i)) inflightNodes)
          then (emptyAction\<lparr>oldNodes := [node cand],
                  actionDisruptionCost := podsDisruptionCost (pods cand),
                  savings := Price (instanceType cand),
                  result := consolidateResultDelete\<rparr>, None)
          else
          (case newNodes of
             [n0] \<Rightarrow>
               (let nodePrice = Price (instanceType cand);
                    n0' = n0\<lparr>InstanceTypeOptions :=
                            filterByPrice (InstanceTypeOptions n0) nodePrice False\<rparr>
                in case InstanceTypeOptions n0' of
                     [] \<Rightarrow> (emptyAction\<lparr>result := consolidateResultNotPossible\<rparr>, None)
                   | it0 # _ \<Rightarrow>
                       if lookup (Labels (node cand)) LabelCapacityType = CapacityTypeSpot \<and>
                          CapacityTypeSpot \<in> Requirements n0' LabelCapacityType
                       then (emptyAction\<lparr>result := consolidateResultNotPossible\<rparr>, None)
                       else (emptyAction\<lparr>oldNodes := [node cand],
                               actionDisruptionCost := podsDisruptionCost (pods cand),
                               savings := nodePrice - Price it0,
                               result := consolidateResultReplace,
                               replacementNode := Some n0'\<rparr>, None))
           | _ \<Rightarrow> (emptyAction\<lparr>result := consolidateResultNotPossible\<rparr>, None))))"

text \<open>
  \<^verbatim>\<open>calculateLifetimeRemaining\<close>. A TTL of zero divides by zero in the source (an
  infinity or NaN that \<^verbatim>\<open>clamp\<close> receives); HOL's \<open>x / 0 = 0\<close> stands there instead, and
  no property below reads the scaled cost.
\<close>

definition calculateLifetimeRemaining :: "env \<Rightarrow> candidateNode \<Rightarrow> real" where
  "calculateLifetimeRemaining e cand =
     (case TTLSecondsUntilExpired (provisioner cand) of
        None \<Rightarrow> 1
      | Some ttl \<Rightarrow>
          (let ageInSeconds = sinceSeconds e (CreationTimestamp (node cand));
               totalLifetimeSeconds = real_of_int ttl;
               lifetimeRemainingSeconds = totalLifetimeSeconds - ageInSeconds
           in clamp 0 (lifetimeRemainingSeconds / totalLifetimeSeconds) 1))"

definition nodeConsolidationActions :: "env \<Rightarrow> candidateNode \<Rightarrow> consolidationAction" where
  "nodeConsolidationActions e cand =
     (let lifetimeRemaining = calculateLifetimeRemaining e cand;
          cost = fst (nodeConsolidationOptionReplaceOrDelete e cand)
      in cost\<lparr>actionDisruptionCost := actionDisruptionCost cost * lifetimeRemaining\<rparr>)"

section \<open>Eviction gate\<close>

text \<open>The loop of \<^verbatim>\<open>podsPreventEviction\<close> over the pods of the candidate.\<close>

fun podsPreventEvictionLoop :: "Pod list \<Rightarrow> error option" where
  "podsPreventEvictionLoop [] = None"
| "podsPreventEvictionLoop (p # ps) =
     (if IsTerminating p \<or> IsTerminal p \<or> IsOwnedByNode p then podsPreventEvictionLoop ps
      else if HasDoNotEvict p then Some ''found do-not-evict pod''
      else if IsNotOwned p then Some ''found pod with no controller''
      else podsPreventEvictionLoop ps)"

definition podsPreventEviction :: "candidateNode \<Rightarrow> error option" where
  "podsPreventEviction cand = podsPreventEvictionLoop (pods cand)"

text \<open>\<open>pdbs\<close> is \<^verbatim>\<open>PDBLimits.CanEvictPods\<close> of the limits built for the tick.\<close>

definition canBeTerminated :: "candidateNode \<Rightarrow> (Pod list \<Rightarrow> bool) \<Rightarrow> error option" where
  "canBeTerminated cand pdbs =
     (if \<not> IsZero (DeletionTimestamp (node cand)) then Some ''already being deleted''
      else if \<not> pdbs (pods cand) then Some ''not eligible for termination due to PDBs''
      else podsPreventEviction cand)"

section \<open>Stabilization window\<close>

text \<open>
  A ReplicaSet, ReplicationController or StatefulSet, reduced to the two fields the
  controller reads; both are \<^verbatim>\<open>int32\<close> and only compared.
\<close>

record workload =
  Replicas :: "int option"
  ReadyReplicas :: int

text \<open>The answers of the four list calls behind the stabilization window.\<close>

record workloadLists =
  pendingPodList :: "error + Pod list"
  replicaSetList :: "error + workload list"
  replicationControllerList :: "error + workload list"
  statefulSetList :: "error + workload list"

definition hasPendingPods :: "workloadLists \<Rightarrow> bool" where
  "hasPendingPods w =
     (case pendingPodList w of
        Inl err \<Rightarrow> True
      | Inr items \<Rightarrow> list_ex IsProvisionable items)"

text \<open>
  The loop that \<^verbatim>\<open>replicaSetsReady\<close>, \<^verbatim>\<open>replicationControllersReady\<close> and
  \<^verbatim>\<open>statefulSetsReady\<close> each run over their items; an unspecified replica count is 1.
\<close>

fun readyLoop :: "workload list \<Rightarrow> bool" where
  "readyLoop [] = True"
| "readyLoop (rs # rest) =
     (let desired = (case Replicas rs of None \<Rightarrow> 1 | Some d \<Rightarrow> d)
      in if ReadyReplicas rs < desired then False else readyLoop rest)"

definition replicaSetsReady :: "workloadLists \<Rightarrow> bool" where
  "replicaSetsReady w =
     (case replicaSetList w of Inl err \<Rightarrow> True | Inr items \<Rightarrow> readyLoop items)"

definition replicationControllersReady :: "workloadLists \<Rightarrow> bool" where
  "replicationControllersReady w =
     (case replicationControllerList w of Inl err \<Rightarrow> True | Inr items \<Rightarrow> readyLoop items)"

definition statefulSetsReady :: "workloadLists \<Rightarrow> bool" where
  "statefulSetsReady w =
     (case statefulSetList w of Inl err \<Rightarrow> True | Inr items \<Rightarrow> readyLoop items)"

text \<open>A \<^verbatim>\<open>time.Duration\<close> is a count of nanoseconds.\<close>

definition Minute :: int where
  "Minute = 60 * 1000000000"

definition stabilizationWindow :: "workloadLists \<Rightarrow> int" where
  "stabilizationWindow w =
     (if \<not> hasPendingPods w \<and> replicaSetsReady w \<and>
         replicationControllersReady w \<and> statefulSetsReady w
      then 0 else 5 * Minute)"

section \<open>Action executor\<close>

definition setNodeUnschedulable :: "env \<Rightarrow> string \<Rightarrow> bool \<Rightarrow> trace \<Rightarrow> error option \<times> trace" where
  "setNodeUnschedulable e nodeName isUnschedulable t =
     (case kubeGet e t nodeName of
        Inl err \<Rightarrow> (Some (''getting node, '' @ err), t @ [KubeGet nodeName (Inl err)])
      | Inr n \<Rightarrow>
          (let t1 = t @ [KubeGet nodeName (Inr n)]
           in if \<not> isUnschedulable \<and> \<not> IsZero (DeletionTimestamp n) then (None, t1)
              else if Unschedulable n = isUnschedulable then (None, t1)
              else (case kubePatch e t1 (Name n) isUnschedulable of
                      Some err \<Rightarrow> (Some (''patching node '' @ Name n @ '', '' @ err),
                                    t1 @ [KubePatch (Name n) isUnschedulable (Some err)])
                    | None \<Rightarrow> (None, t1 @ [KubePatch (Name n) isUnschedulable None]))))"

text \<open>
  \<^verbatim>\<open>retry.Do\<close> with \<^verbatim>\<open>Attempts(n + 1)\<close> and \<^verbatim>\<open>LastErrorOnly(true)\<close>: the function runs
  until it returns no error, at most \<open>n + 1\<close> times, and the error of the last run is the
  result. The delays between the runs are not modelled.
\<close>

fun retryDo :: "('s \<Rightarrow> error option \<times> 's) \<Rightarrow> nat \<Rightarrow> 's \<Rightarrow> error option \<times> 's" where
  "retryDo f 0 s = f s"
| "retryDo f (Suc n) s =
     (case f s of
        (None, s') \<Rightarrow> (None, s')
      | (Some err, s') \<Rightarrow> retryDo f n s')"

text \<open>
  The function retried by \<^verbatim>\<open>launchReplacementNode\<close>. Its state is the trace and whether
  the \<^verbatim>\<open>sync.Once\<close> has fired.
\<close>

definition pollInitialized ::
    "env \<Rightarrow> string \<Rightarrow> trace \<times> bool \<Rightarrow> error option \<times> (trace \<times> bool)" where
  "pollInitialized e nodeName s =
     (case s of (t, once) \<Rightarrow>
        (case kubeGet e t nodeName of
           Inl err \<Rightarrow> (Some (''getting node, '' @ err), (t @ [KubeGet nodeName (Inl err)], once))
         | Inr k8Node \<Rightarrow>
             (let t1 = t @ [KubeGet nodeName (Inr k8Node)];
                  t2 = (if once then t1
                        else t1 @ [Recorded (LaunchingNodeForConsolidation k8Node)])
              in case map_of (Labels k8Node) LabelNodeInitialized of
                   None \<Rightarrow> (Some ''node is not initialized'',
                            (t2 @ [Recorded (WaitingOnReadinessForConsolidation k8Node)], True))
                 | Some v \<Rightarrow> (None, (t2, True)))))"

text \<open>\<^verbatim>\<open>multierr.Combine\<close> of an optional first error and a second one.\<close>

definition combineErr :: "error option \<Rightarrow> error \<Rightarrow> error" where
  "combineErr a b = (case a of None \<Rightarrow> b | Some x \<Rightarrow> x @ ''; '' @ b)"

definition retryAttempts :: nat where
  "retryAttempts = 30"

definition launchReplacementNode ::
    "env \<Rightarrow> consolidationAction \<Rightarrow> trace \<Rightarrow> error option \<times> trace" where
  "launchReplacementNode e minCost t =
     (case oldNodes minCost of
        [old] \<Rightarrow>
          (case setNodeUnschedulable e (Name old) True t of
             (Some err, t1) \<Rightarrow> (Some (''cordoning node '' @ Name old @ '', '' @ err), t1)
           | (None, t1) \<Rightarrow>
               (case launchNodes e t1 (replacementNode minCost) of
                  Inl err \<Rightarrow> (Some err, t1 @ [LaunchNodes (Inl err)])
                | Inr nodeNames \<Rightarrow>
                    (let t2 = t1 @ [LaunchNodes (Inr nodeNames)]
                     in case nodeNames of
                          [newName] \<Rightarrow>
                            (case retryDo (pollInitialized e newName) (retryAttempts - 1)
                                    (t2, False) of
                               (None, (t3, once)) \<Rightarrow> (None, t3)
                             | (Some err, (t3, once)) \<Rightarrow>
                                 (case setNodeUnschedulable e (Name old) False t3 of
                                    (uncordon, t4) \<Rightarrow>
                                      (Some (combineErr uncordon
                                         (''timed out checking node readiness, '' @ err)), t4)))
                        | _ \<Rightarrow> (Some ''expected a single node name'', t2))))
      | _ \<Rightarrow> (Some ''expected a single node to replace'', t))"

text \<open>The loop of \<^verbatim>\<open>performConsolidation\<close> over the old nodes of the action.\<close>

fun deleteOldNodes :: "env \<Rightarrow> Node list \<Rightarrow> trace \<Rightarrow> trace" where
  "deleteOldNodes e [] t = t"
| "deleteOldNodes e (oldNode # rest) t =
     (let t1 = t @ [Recorded (TerminatingNodeForConsolidation oldNode)]
      in deleteOldNodes e rest (t1 @ [KubeDelete (Name oldNode) (kubeDelete e t1 oldNode)]))"

definition performConsolidation :: "env \<Rightarrow> consolidationAction \<Rightarrow> trace \<Rightarrow> trace" where
  "performConsolidation e action t =
     (if result action \<noteq> consolidateResultDelete \<and>
         result action \<noteq> consolidateResultReplace \<and>
         result action \<noteq> consolidateResultDeleteEmpty
      then t
      else if result action = consolidateResultReplace
      then (case launchReplacementNode e action t of
              (Some err, t1) \<Rightarrow> t1
            | (None, t1) \<Rightarrow> deleteOldNodes e (oldNodes action) t1)
      else deleteOldNodes e (oldNodes action) t)"

section \<open>Candidate selector\<close>

type_synonym provisionerMap = "string \<rightharpoonup> Provisioner"

type_synonym instanceTypeMaps = "string \<rightharpoonup> (string \<rightharpoonup> InstanceType)"

text \<open>
  The loop of \<^verbatim>\<open>buildProvisionerMap\<close> over the listed provisioners; a later provisioner or
  instance type of the same name replaces an earlier one.
\<close>

fun provisionerLoop ::
    "env \<Rightarrow> Provisioner list \<Rightarrow> provisionerMap \<Rightarrow> instanceTypeMaps \<Rightarrow>
     error + (provisionerMap \<times> instanceTypeMaps)" where
  "provisionerLoop e [] provisioners its = Inr (provisioners, its)"
| "provisionerLoop e (p # rest) provisioners its =
     (case getInstanceTypes e p of
        Inl err \<Rightarrow> Inl (''listing instance types for '' @ ProvName p @ '', '' @ err)
      | Inr provInstanceTypes \<Rightarrow>
          provisionerLoop e rest (provisioners(ProvName p \<mapsto> p))
            (its(ProvName p \<mapsto> fold (\<lambda>it m. m(ITName it \<mapsto> it)) provInstanceTypes Map.empty)))"

definition buildProvisionerMap ::
    "env \<Rightarrow> trace \<Rightarrow> (error + (provisionerMap \<times> instanceTypeMaps)) \<times> trace" where
  "buildProvisionerMap e t =
     (case listProvisioners e t of
        Inl err \<Rightarrow> (Inl (''listing provisioners, '' @ err), t @ [ListProvisioners])
      | Inr items \<Rightarrow> (provisionerLoop e items Map.empty Map.empty, t @ [ListProvisioners]))"

definition getNodePods :: "env \<Rightarrow> string \<Rightarrow> trace \<Rightarrow> (error + Pod list) \<times> trace" where
  "getNodePods e nodeName t =
     (case listPods e t nodeName of
        Inl err \<Rightarrow> (Inl (''listing pods, '' @ err), t @ [ListPods nodeName])
      | Inr items \<Rightarrow>
          (Inr (filter (\<lambda>p. \<not> (IsOwnedByNode p \<or> IsOwnedByDaemonSet p \<or> IsTerminal p)) items),
           t @ [ListPods nodeName]))"

text \<open>
  The callback that \<^verbatim>\<open>candidateNodes\<close> hands to \<^verbatim>\<open>ForEachNode\<close>; it always asks for the
  next node. Its state is the candidates found, \<^verbatim>\<open>uninitializedNodeExists\<close> and the trace.
\<close>

definition visitNode ::
    "env \<Rightarrow> provisionerMap \<Rightarrow> instanceTypeMaps \<Rightarrow> Node \<Rightarrow>
     candidateNode list \<times> bool \<times> trace \<Rightarrow> candidateNode list \<times> bool \<times> trace" where
  "visitNode e provisioners instanceTypesByProvisioner n s =
     (case s of (nodes, uninitializedNodeExists, t) \<Rightarrow>
      (case map_of (Labels n) ProvisionerNameLabelKey of
         None \<Rightarrow> s
       | Some provName \<Rightarrow>
      (case provisioners provName of
         None \<Rightarrow> s
       | Some prov \<Rightarrow>
      (case instanceTypesByProvisioner provName of
         None \<Rightarrow> s
       | Some instanceTypeMap \<Rightarrow>
      (case instanceTypeMap (lookup (Labels n) LabelInstanceTypeStable) of
         None \<Rightarrow> s
       | Some it \<Rightarrow>
      (case Consolidation prov of
         None \<Rightarrow> s
       | Some enabled \<Rightarrow>
          if \<not> BoolValue enabled then s
          else if uninitializedNodeExists then s
          else if lookup (Labels n) LabelNodeInitialized \<noteq> ''true'' then (nodes, True, t)
          else if lookup (Annotations n) DoNotConsolidateNodeAnnotationKey = ''true'' then s
          else if isNodeNominated e (Name n) then s
          else (case getNodePods e (Name n) t of
                  (Inl err, t') \<Rightarrow> (nodes, uninitializedNodeExists, t')
                | (Inr ps, t') \<Rightarrow>
                    (nodes @ [\<lparr>node = n, instanceType = it, provisioner = prov,
                               disruptionCost = podsDisruptionCost ps, pods = ps\<rparr>],
                     uninitializedNodeExists, t'))))))))"

definition candidateNodes :: "env \<Rightarrow> trace \<Rightarrow> (error + candidateNode list) \<times> trace" where
  "candidateNodes e t =
     (case buildProvisionerMap e t of
        (Inl err, t1) \<Rightarrow> (Inl err, t1)
      | (Inr (provisioners, instanceTypesByProvisioner), t1) \<Rightarrow>
          (case fold (visitNode e provisioners instanceTypesByProvisioner) (stateNodes e)
                  ([], False, t1) of
             (nodes, uninitializedNodeExists, t2) \<Rightarrow>
               if uninitializedNodeExists then (Inr [], t2) else (Inr nodes, t2)))"

section \<open>One tick\<close>

text \<open>
  The \<^verbatim>\<open>less\<close> function given to \<^verbatim>\<open>sort.Slice\<close>, on the elements instead of their indices;
  \<^verbatim>\<open>Before\<close> is strict.
\<close>

definition byNodeDisruptionCost :: "candidateNode \<Rightarrow> candidateNode \<Rightarrow> bool" where
  "byNodeDisruptionCost a b =
     (if disruptionCost a = disruptionCost b
      then CreationTimestamp (node a) < CreationTimestamp (node b)
      else disruptionCost a < disruptionCost b)"

text \<open>\<^verbatim>\<open>NewPDBLimits\<close>, which lists the PodDisruptionBudgets.\<close>

definition newPDBLimitsCall :: "env \<Rightarrow> trace \<Rightarrow> (error + (Pod list \<Rightarrow> bool)) \<times> trace" where
  "newPDBLimitsCall e t = (newPDBLimits e t, t @ [ListPodDisruptionBudgets])"

text \<open>The loop of \<^verbatim>\<open>ProcessCluster\<close> over the sorted, non-empty candidates.\<close>

fun consolidateLoop ::
    "env \<Rightarrow> (Pod list \<Rightarrow> bool) \<Rightarrow> candidateNode list \<Rightarrow> trace \<Rightarrow>
     (ProcessResult \<times> error option) \<times> trace" where
  "consolidateLoop e pdbs [] t = ((ProcessResultNothingToDo, None), t)"
| "consolidateLoop e pdbs (cand # rest) t =
     (case canBeTerminated cand pdbs of
        Some err \<Rightarrow> consolidateLoop e pdbs rest t
      | None \<Rightarrow>
          (let action = nodeConsolidationActions e cand
           in if result action = consolidateResultDelete \<or>
                 result action = consolidateResultReplace
              then ((ProcessResultConsolidated, None), performConsolidation e action t)
              else consolidateLoop e pdbs rest t))"

definition ProcessCluster :: "env \<Rightarrow> trace \<Rightarrow> (ProcessResult \<times> error option) \<times> trace" where
  "ProcessCluster e t =
     (case candidateNodes e t of
        (Inl err, t1) \<Rightarrow>
          ((ProcessResultFailed, Some (''determining candidate nodes, '' @ err)), t1)
      | (Inr candidates, t1) \<Rightarrow>
          if candidates = [] then ((ProcessResultNothingToDo, None), t1)
          else
            (let emptyNodes = filter (\<lambda>n. pods n = []) candidates
             in if emptyNodes \<noteq> []
                then ((ProcessResultConsolidated, None),
                      performConsolidation e
                        (emptyAction\<lparr>oldNodes := map node emptyNodes,
                           result := consolidateResultDeleteEmpty\<rparr>) t1)
                else
                  (case newPDBLimitsCall e t1 of
                     (Inl err, t2) \<Rightarrow>
                       ((ProcessResultFailed,
                         Some (''tracking PodDisruptionBudgets, '' @ err)), t2)
                   | (Inr pdbs, t2) \<Rightarrow>
                       consolidateLoop e pdbs (sortSlice e byNodeDisruptionCost candidates) t2)))"

section \<open>Observations on a tick\<close>

text \<open>
  The candidates at which the loop of \<^verbatim>\<open>ProcessCluster\<close> stops: the gate lets them
  through and the planner answers \<^verbatim>\<open>Delete\<close> or \<^verbatim>\<open>Replace\<close>.
\<close>

definition selectable :: "env \<Rightarrow> (Pod list \<Rightarrow> bool) \<Rightarrow> candidateNode \<Rightarrow> bool" where
  "selectable e pdbs cand =
     (canBeTerminated cand pdbs = None \<and>
      (result (nodeConsolidationActions e cand) = consolidateResultDelete \<or>
       result (nodeConsolidationActions e cand) = consolidateResultReplace))"

text \<open>Reading a trace: the deletes issued, and a get that shows the initialized label.\<close>

fun isDelete :: "event \<Rightarrow> bool" where
  "isDelete (KubeDelete nodeName r) = True"
| "isDelete ev = False"

fun deletedNames :: "trace \<Rightarrow> string list" where
  "deletedNames [] = []"
| "deletedNames (KubeDelete nodeName r # es) = nodeName # deletedNames es"
| "deletedNames (ev # es) = deletedNames es"

fun observedInitialized :: "string \<Rightarrow> event \<Rightarrow> bool" where
  "observedInitialized nodeName (KubeGet n (Inr k8Node)) =
     (n = nodeName \<and> map_of (Labels k8Node) LabelNodeInitialized \<noteq> None)"
| "observedInitialized nodeName ev = False"

text \<open>The calls that candidate selection makes on the kube client.\<close>

fun isListCall :: "event \<Rightarrow> bool" where
  "isListCall ListProvisioners = True"
| "isListCall (ListPods nodeName) = True"
| "isListCall ev = False"

text \<open>
  A node that passes the first filters of the callback of \<^verbatim>\<open>candidateNodes\<close>: its
  provisioner label names a known provisioner with consolidation enabled, and its
  instance-type label a type of that provisioner.
\<close>

definition consolidatable :: "provisionerMap \<Rightarrow> instanceTypeMaps \<Rightarrow> Node \<Rightarrow> bool" where
  "consolidatable provisioners instanceTypesByProvisioner n =
     (case map_of (Labels n) ProvisionerNameLabelKey of
        None \<Rightarrow> False
      | Some provName \<Rightarrow>
     (case provisioners provName of
        None \<Rightarrow> False
      | Some prov \<Rightarrow>
     (case instanceTypesByProvisioner provName of
        None \<Rightarrow> False
      | Some instanceTypeMap \<Rightarrow>
          instanceTypeMap (lookup (Labels n) LabelInstanceTypeStable) \<noteq> None \<and>
          (case Consolidation prov of None \<Rightarrow> False | Some enabled \<Rightarrow> BoolValue enabled))))"

text \<open>
  The order that \<^verbatim>\<open>byNodeDisruptionCost\<close> asks for: ascending disruption cost, and among
  equal costs the node created earlier first.
\<close>

definition costOrder :: "candidateNode \<Rightarrow> candidateNode \<Rightarrow> bool" where
  "costOrder a b =
     (disruptionCost a < disruptionCost b \<or>
      (disruptionCost a = disruptionCost b \<and>
       CreationTimestamp (node a) \<le> CreationTimestamp (node b)))"

text \<open>
  What \<^verbatim>\<open>sort.Slice\<close> promises for a \<^verbatim>\<open>less\<close> function and a slice: the result is a
  permutation of the slice in which no later element is less than an earlier one.
\<close>

definition sortsBy ::
    "(('a \<Rightarrow> 'a \<Rightarrow> bool) \<Rightarrow> 'a list \<Rightarrow> 'a list) \<Rightarrow> ('a \<Rightarrow> 'a \<Rightarrow> bool) \<Rightarrow> 'a list \<Rightarrow> bool" where
  "sortsBy srt lt xs =
     (mset (srt lt xs) = mset xs \<and> sorted_wrt (\<lambda>a b. \<not> lt b a) (srt lt xs))"

text \<open>
  The state in which \<^verbatim>\<open>retry.Do\<close> makes its attempt number \<open>k\<close> (counted from 0) when
  all attempts before it have failed.
\<close>

fun attemptState :: "('s \<Rightarrow> error option \<times> 's) \<Rightarrow> nat \<Rightarrow> 's \<Rightarrow> 's" where
  "attemptState f 0 s = s"
| "attemptState f (Suc k) s = attemptState f k (snd (f s))"

section \<open>Example clusters\<close>

text \<open>Small concrete environments, nodes and pods on which the properties are run.\<close>

text \<open>
  An insertion sort that keeps the original order of the elements that \<open>lt\<close> does not
  separate: one of the sorts that \<^verbatim>\<open>sort.Slice\<close> may be.
\<close>

fun insertBy :: "('a \<Rightarrow> 'a \<Rightarrow> bool) \<Rightarrow> 'a \<Rightarrow> 'a list \<Rightarrow> 'a list" where
  "insertBy lt x [] = [x]"
| "insertBy lt x (y # ys) = (if lt x y then x # y # ys else y # insertBy lt x ys)"

definition insertionSort :: "('a \<Rightarrow> 'a \<Rightarrow> bool) \<Rightarrow> 'a list \<Rightarrow> 'a list" where
  "insertionSort lt xs = fold (insertBy lt) xs []"

text \<open>
  A sort that meets the same promise and puts later elements first among those that \<open>lt\<close>
  does not separate.
\<close>

definition reverseTiesSort :: "('a \<Rightarrow> 'a \<Rightarrow> bool) \<Rightarrow> 'a list \<Rightarrow> 'a list" where
  "reverseTiesSort lt xs = insertionSort lt (rev xs)"

definition quietEnv :: env where
  "quietEnv = \<lparr>listProvisioners = (\<lambda>t. Inr []), getInstanceTypes = (\<lambda>p. Inr []),
     stateNodes = [], isNodeNominated = (\<lambda>n. False), listPods = (\<lambda>t n. Inr []),
     newPDBLimits = (\<lambda>t. Inr (\<lambda>ps. True)), newScheduler = (\<lambda>c. None),
     solve = (\<lambda>c. Inr ([], [])), sinceSeconds = (\<lambda>ts. 0),
     kubeGet = (\<lambda>t n. Inl ''not found''), kubePatch = (\<lambda>t n b. None),
     kubeDelete = (\<lambda>t n. None), launchNodes = (\<lambda>t n. Inl ''no capacity''),
     sortSlice = insertionSort\<rparr>"

definition mkType :: "string \<Rightarrow> real \<Rightarrow> InstanceType" where
  "mkType n p = \<lparr>ITName = n, Price = p\<rparr>"

definition mkNode :: "string \<Rightarrow> labels \<Rightarrow> Node" where
  "mkNode n ls = \<lparr>Name = n, Labels = ls, Annotations = [], CreationTimestamp = 100,
     DeletionTimestamp = None, Unschedulable = False\<rparr>"

definition mkPod :: "string \<Rightarrow> Pod" where
  "mkPod n = \<lparr>PodName = n, IsOwnedByNode = False, IsOwnedByDaemonSet = False,
     IsTerminal = False, IsTerminating = False, HasDoNotEvict = False, IsNotOwned = False,
     IsProvisionable = False, EvictionCost = 1\<rparr>"

definition mkProvisioner :: "string \<Rightarrow> Provisioner" where
  "mkProvisioner n = \<lparr>ProvName = n, Consolidation = Some (Some True),
     TTLSecondsUntilExpired = None\<rparr>"

definition mkCandidate :: "Node \<Rightarrow> InstanceType \<Rightarrow> Pod list \<Rightarrow> candidateNode" where
  "mkCandidate n it ps = \<lparr>node = n, instanceType = it, provisioner = mkProvisioner ''default'',
     disruptionCost = podsDisruptionCost ps, pods = ps\<rparr>"

definition mkSchedNode :: "InstanceType list \<Rightarrow> string set \<Rightarrow> schedNode" where
  "mkSchedNode its caps = \<lparr>InstanceTypeOptions = its,
     Requirements = (\<lambda>k. if k = LabelCapacityType then caps else UNIV), SchedPods = []\<rparr>"

definition onDemandCandidate :: candidateNode where
  "onDemandCandidate = mkCandidate (mkNode ''old'' []) (mkType ''large'' 3) [mkPod ''p'']"

definition unsortedEnv :: env where
  "unsortedEnv = quietEnv\<lparr>solve := (\<lambda>c. Inr ([mkSchedNode [mkType ''medium'' 2, mkType ''small'' 1] {''on-demand''}], []))\<rparr>"

definition sortedEnv :: env where
  "sortedEnv = quietEnv\<lparr>solve := (\<lambda>c. Inr ([mkSchedNode [mkType ''small'' 1, mkType ''medium'' 2, mkType ''huge'' 5] {''on-demand''}], []))\<rparr>"

definition pricierEnv :: env where
  "pricierEnv = quietEnv\<lparr>solve := (\<lambda>c. Inr ([mkSchedNode [mkType ''large'' 3, mkType ''huge'' 5] {''on-demand''}], []))\<rparr>"

definition fitsEnv :: env where
  "fitsEnv = quietEnv\<lparr>solve := (\<lambda>c. Inr ([], [\<lparr>InflightName = ''other'', InflightPods = [mkPod ''p'']\<rparr>]))\<rparr>"

definition fanOutEnv :: env where
  "fanOutEnv = quietEnv\<lparr>solve := (\<lambda>c. Inr ([mkSchedNode [mkType ''small'' 1] {''on-demand''}, mkSchedNode [mkType ''small'' 1] {''on-demand''}], []))\<rparr>"

definition spotCandidate :: candidateNode where
  "spotCandidate = mkCandidate (mkNode ''old'' [(LabelCapacityType, CapacityTypeSpot)])
     (mkType ''large'' 3) [mkPod ''p'']"

definition spotEnv :: env where
  "spotEnv = quietEnv\<lparr>solve := (\<lambda>c. Inr ([mkSchedNode [mkType ''small'' 1] {''spot'', ''on-demand''}], []))\<rparr>"

definition pinnedCandidate :: candidateNode where
  "pinnedCandidate = mkCandidate (mkNode ''pinned'' []) (mkType ''large'' 3)
     [(mkPod ''keep'')\<lparr>HasDoNotEvict := True\<rparr>]"

definition finishingCandidate :: candidateNode where
  "finishingCandidate = mkCandidate (mkNode ''finishing'' []) (mkType ''large'' 3)
     [(mkPod ''leaving'')\<lparr>IsTerminating := True, HasDoNotEvict := True, IsNotOwned := True\<rparr>]"

definition rsListFails :: workloadLists where
  "rsListFails = \<lparr>pendingPodList = Inr [], replicaSetList = Inl ''connection refused'',
     replicationControllerList = Inr [], statefulSetList = Inr []\<rparr>"

definition oldNode :: Node where
  "oldNode = mkNode ''old'' [(LabelNodeInitialized, ''true'')]"

definition replaceAction :: consolidationAction where
  "replaceAction = \<lparr>oldNodes = [oldNode], actionDisruptionCost = 1, savings = 2,
     result = consolidateResultReplace,
     replacementNode = Some (mkSchedNode [mkType ''small'' 1] {''on-demand''})\<rparr>"

text \<open>
  A cluster that answers a get of the old node with its cordon state, launches a node
  named \<open>new\<close>, and shows \<open>new\<close> without labels until the trace has \<open>k\<close> events and
  with the given labels afterwards.
\<close>

definition replacingEnv :: "nat \<Rightarrow> labels \<Rightarrow> env" where
  "replacingEnv k ls = quietEnv\<lparr>
     kubeGet := (\<lambda>t n.
       if n = ''old'' then Inr (oldNode\<lparr>Unschedulable := (KubePatch ''old'' True None \<in> set t)\<rparr>)
       else if n = ''new'' then Inr (mkNode ''new'' (if length t < k then [] else ls))
       else Inl ''not found''),
     launchNodes := (\<lambda>t n. Inr [''new''])\<rparr>"

definition launchFailEnv :: env where
  "launchFailEnv = (replacingEnv 0 [])\<lparr>launchNodes := (\<lambda>t n. Inl ''insufficient capacity'')\<rparr>"

definition managedLabels :: labels where
  "managedLabels = [(ProvisionerNameLabelKey, ''default''), (LabelInstanceTypeStable, ''large''),
     (LabelNodeInitialized, ''true'')]"

definition emptyNode :: Node where
  "emptyNode = mkNode ''empty'' managedLabels"

definition foreignNode :: Node where
  "foreignNode = mkNode ''foreign'' []"

definition startingNode :: Node where
  "startingNode = mkNode ''starting''
     [(ProvisionerNameLabelKey, ''default''), (LabelInstanceTypeStable, ''large'')]"

definition goneNode :: Node where
  "goneNode = (mkNode ''gone'' managedLabels)\<lparr>DeletionTimestamp := Some 5\<rparr>"

definition busyNode :: Node where
  "busyNode = mkNode ''busy'' managedLabels"

definition daemonPod :: Pod where
  "daemonPod = (mkPod ''agent'')\<lparr>IsOwnedByDaemonSet := True\<rparr>"

text \<open>
  A cluster with one provisioner, \<open>default\<close>, that offers the types \<open>large\<close> and
  \<open>small\<close>; the state nodes and the pods bound to each node are given.
\<close>

definition clusterEnv :: "Node list \<Rightarrow> (string \<Rightarrow> Pod list) \<Rightarrow> env" where
  "clusterEnv ns podsOf = quietEnv\<lparr>
     listProvisioners := (\<lambda>t. Inr [mkProvisioner ''default'']),
     getInstanceTypes := (\<lambda>p. Inr [mkType ''large'' 3, mkType ''small'' 1]),
     stateNodes := ns,
     listPods := (\<lambda>t n. Inr (podsOf n))\<rparr>"

text \<open>
  A node that is already being deleted and hosts a daemonset pod only, beside a node with
  a pod, under PDB limits that let nothing be evicted.
\<close>

definition guardedEnv :: env where
  "guardedEnv = (clusterEnv [goneNode, busyNode]
       (\<lambda>n. if n = ''gone'' then [daemonPod] else [mkPod ''p'']))
     \<lparr>newPDBLimits := (\<lambda>t. Inr (\<lambda>ps. False))\<rparr>"

definition agedNode :: "string \<Rightarrow> int \<Rightarrow> Node" where
  "agedNode n created = (mkNode n managedLabels)\<lparr>CreationTimestamp := created\<rparr>"

text \<open>
  Three nodes with pods: \<open>b\<close> holds two pods, \<open>a\<close> and \<open>c\<close> one each, and \<open>c\<close> is
  older than \<open>a\<close>. The pod of \<open>c\<close> fits nowhere else; the pods of the others fit on the
  rest of the fleet.
\<close>

definition tickEnv :: env where
  "tickEnv = (clusterEnv [agedNode ''b'' 10, agedNode ''a'' 70, agedNode ''c'' 50]
       (\<lambda>n. if n = ''b'' then [mkPod ''b1'', mkPod ''b2'']
             else if n = ''a'' then [mkPod ''a1''] else [mkPod ''c1'']))
     \<lparr>solve := (\<lambda>cand. if Name (node cand) = ''c'' then Inr ([], [])
                      else Inr ([], [\<lparr>InflightName = ''rest'', InflightPods = pods cand\<rparr>]))\<rparr>"

definition candB :: candidateNode where
  "candB = mkCandidate (agedNode ''b'' 10) (mkType ''large'' 3) [mkPod ''b1'', mkPod ''b2'']"

definition candA :: candidateNode where
  "candA = mkCandidate (agedNode ''a'' 70) (mkType ''large'' 3) [mkPod ''a1'']"

definition candC :: candidateNode where
  "candC = mkCandidate (agedNode ''c'' 50) (mkType ''large'' 3) [mkPod ''c1'']"

definition falseLabels :: labels where
  "falseLabels = [(ProvisionerNameLabelKey, ''default''), (LabelInstanceTypeStable, ''large''),
     (LabelNodeInitialized, ''false'')]"

text \<open>
  The replacement shows the initialized label, with the value \<^verbatim>\<open>"false"\<close>, from its
  second poll on; and a replacement that never shows a label.
\<close>

definition lateLabelEnv :: env where
  "lateLabelEnv = replacingEnv 4 falseLabels"

definition neverReadyEnv :: env where
  "neverReadyEnv = replacingEnv 0 []"

definition defaultProvisioners :: provisionerMap where
  "defaultProvisioners = [''default'' \<mapsto> mkProvisioner ''default'']"

definition defaultInstanceTypes :: instanceTypeMaps where
  "defaultInstanceTypes = [''default'' \<mapsto> [''large'' \<mapsto> mkType ''large'' 3]]"

definition foreignEnv :: env where
  "foreignEnv = clusterEnv [foreignNode, emptyNode] (\<lambda>n. [])"

definition startingEnv :: env where
  "startingEnv = clusterEnv [emptyNode, startingNode] (\<lambda>n. [])"

text \<open>
  A node of a known provisioner whose instance type the provisioner does not offer, not
  initialized, beside a node without labels and an empty candidate.
\<close>

definition exoticNode :: Node where
  "exoticNode = mkNode ''exotic''
     [(ProvisionerNameLabelKey, ''default''), (LabelInstanceTypeStable, ''exotic'')]"

definition exoticEnv :: env where
  "exoticEnv = clusterEnv [foreignNode, exoticNode, emptyNode] (\<lambda>n. [])"

text \<open>
  Two nodes of the same cost and age, each with one pod that fits elsewhere, sorted by
  the insertion sort and by the sort that turns ties round.
\<close>

definition twinEnv :: env where
  "twinEnv = (clusterEnv [agedNode ''x'' 50, agedNode ''y'' 50] (\<lambda>n. [mkPod ''p'']))
     \<lparr>solve := (\<lambda>cand. Inr ([], [\<lparr>InflightName = ''rest'', InflightPods = pods cand\<rparr>]))\<rparr>"

definition twinEnvTurned :: env where
  "twinEnvTurned = twinEnv\<lparr>sortSlice := reverseTiesSort\<rparr>"

definition candX :: candidateNode where
  "candX = mkCandidate (agedNode ''x'' 50) (mkType ''large'' 3) [mkPod ''p'']"

definition candY :: candidateNode where
  "candY = mkCandidate (agedNode ''y'' 50) (mkType ''large'' 3) [mkPod ''p'']"

section \<open>Auxiliary facts\<close>

subsection \<open>The planner\<close>

lemmas example_defs = quietEnv_def mkType_def mkNode_def mkPod_def mkProvisioner_def
  mkCandidate_def mkSchedNode_def

lemmas planner_eval = nodeConsolidationActions_def nodeConsolidationOptionReplaceOrDelete_def
      calculateLifetimeRemaining_def example_defs
      emptyAction_def filterByPrice_def podsDisruptionCost_def lookup_def
      LabelCapacityType_def CapacityTypeSpot_def Let_def

lemma nodeConsolidationActions_result:
  "result (nodeConsolidationActions e cand) = result (fst (nodeConsolidationOptionReplaceOrDelete e cand))"
  by (simp add: nodeConsolidationActions_def Let_def)

lemma nodeConsolidationActions_savings:
  "savings (nodeConsolidationActions e cand) = savings (fst (nodeConsolidationOptionReplaceOrDelete e cand))"
  by (simp add: nodeConsolidationActions_def Let_def)

lemma nodeConsolidationActions_oldNodes:
  "oldNodes (nodeConsolidationActions e cand) = oldNodes (fst (nodeConsolidationOptionReplaceOrDelete e cand))"
  by (simp add: nodeConsolidationActions_def Let_def)

lemma nodeConsolidationActions_replacementNode:
  "replacementNode (nodeConsolidationActions e cand) = replacementNode (fst (nodeConsolidationOptionReplaceOrDelete e cand))"
  by (simp add: nodeConsolidationActions_def Let_def)

lemma planner_replace_cases:
  assumes "result (fst (nodeConsolidationOptionReplaceOrDelete e cand)) = consolidateResultReplace"
  shows "\<exists>n0 inflight it0 rest.
           newScheduler e cand = None \<and> solve e cand = Inr ([n0], inflight) \<and>
           filterByPrice (InstanceTypeOptions n0) (Price (instanceType cand)) False = it0 # rest \<and>
           \<not> (lookup (Labels (node cand)) LabelCapacityType = CapacityTypeSpot \<and>
              CapacityTypeSpot \<in> Requirements n0 LabelCapacityType) \<and>
           fst (nodeConsolidationOptionReplaceOrDelete e cand) =
             emptyAction\<lparr>oldNodes := [node cand],
               actionDisruptionCost := podsDisruptionCost (pods cand),
               savings := Price (instanceType cand) - Price it0,
               result := consolidateResultReplace,
               replacementNode := Some (n0\<lparr>InstanceTypeOptions := it0 # rest\<rparr>)\<rparr>"
  using assms
  by (auto simp: nodeConsolidationOptionReplaceOrDelete_def emptyAction_def Let_def
      split: option.splits sum.splits prod.splits list.splits if_splits)

lemma filterByPrice_strict:
  "it \<in> set (filterByPrice options price False) \<Longrightarrow> Price it < price"
  by (simp add: filterByPrice_def)

lemma filterByPrice_sorted:
  "sorted (map Price options) \<Longrightarrow> sorted (map Price (filterByPrice options price inclusive))"
  unfolding filterByPrice_def by (induction options) auto

lemma unsorted_eval:
  "nodeConsolidationActions unsortedEnv onDemandCandidate =
     \<lparr>oldNodes = [mkNode ''old'' []], actionDisruptionCost = 1, savings = 1,
      result = consolidateResultReplace,
      replacementNode = Some (mkSchedNode [mkType ''medium'' 2, mkType ''small'' 1] {''on-demand''})\<rparr>"
  by (simp add: nodeConsolidationActions_def nodeConsolidationOptionReplaceOrDelete_def
      calculateLifetimeRemaining_def unsortedEnv_def onDemandCandidate_def example_defs
      emptyAction_def filterByPrice_def podsDisruptionCost_def lookup_def
      LabelCapacityType_def CapacityTypeSpot_def Let_def)

subsection \<open>The gate and the loop of a tick\<close>

lemma podsPreventEvictionLoop_iff:
  "(podsPreventEvictionLoop ps \<noteq> None) =
     (\<exists>p \<in> set ps. \<not> (IsTerminating p \<or> IsTerminal p \<or> IsOwnedByNode p) \<and>
                    (HasDoNotEvict p \<or> IsNotOwned p))"
  by (induction ps) auto

lemma podsPreventEvictionLoop_ignores:
  "podsPreventEvictionLoop (filter (\<lambda>p. \<not> (IsTerminating p \<or> IsTerminal p \<or> IsOwnedByNode p)) ps) =
     podsPreventEvictionLoop ps"
  by (induction ps) auto

lemma consolidateLoop_find:
  "consolidateLoop e pdbs cs t =
     (case find (selectable e pdbs) cs of
        None \<Rightarrow> ((ProcessResultNothingToDo, None), t)
      | Some c \<Rightarrow> ((ProcessResultConsolidated, None),
                   performConsolidation e (nodeConsolidationActions e c) t))"
  by (induction cs) (auto simp: selectable_def Let_def split: option.splits)

lemma find_skip:
  "\<not> P x \<Longrightarrow> find P (xs @ x # ys) = find P (xs @ ys)"
  by (induction xs) auto

lemma fits_delete:
  "nodeConsolidationActions fitsEnv onDemandCandidate =
     \<lparr>oldNodes = [mkNode ''old'' []], actionDisruptionCost = 1, savings = 3,
      result = consolidateResultDelete, replacementNode = None\<rparr>"
  by (simp add: fitsEnv_def onDemandCandidate_def planner_eval)

lemma fits_delete_trace:
  "performConsolidation fitsEnv \<lparr>oldNodes = [mkNode ''old'' []], actionDisruptionCost = 1, savings = 3,
      result = consolidateResultDelete, replacementNode = None\<rparr> [] =
     [Recorded (TerminatingNodeForConsolidation (mkNode ''old'' [])), KubeDelete ''old'' None]"
  by (simp add: performConsolidation_def fitsEnv_def quietEnv_def mkNode_def)

subsection \<open>The stabilization window\<close>

lemma readyLoop_iff:
  "readyLoop items =
     (\<forall>rs \<in> set items. (case Replicas rs of None \<Rightarrow> 1 | Some d \<Rightarrow> d) \<le> ReadyReplicas rs)"
  by (induction items) (auto simp: Let_def)

lemma stabilizationWindow_lists_ok:
  assumes "pendingPodList w = Inr pending" and "replicaSetList w = Inr rss"
      and "replicationControllerList w = Inr rcs" and "statefulSetList w = Inr sss"
  shows "stabilizationWindow w =
     (if (\<forall>p \<in> set pending. \<not> IsProvisionable p) \<and>
         (\<forall>rs \<in> set (rss @ rcs @ sss).
            (case Replicas rs of None \<Rightarrow> 1 | Some d \<Rightarrow> d) \<le> ReadyReplicas rs)
      then 0 else 5 * Minute)"
  using assms
  by (auto simp: stabilizationWindow_def hasPendingPods_def replicaSetsReady_def
      replicationControllersReady_def statefulSetsReady_def readyLoop_iff list_ex_iff)

subsection \<open>Traces of the executor\<close>

lemma setNodeUnschedulable_events:
  "\<exists>es. snd (setNodeUnschedulable e nodeName b t) = t @ es \<and> \<not> list_ex isDelete es"
  by (auto simp: setNodeUnschedulable_def Let_def split: sum.splits option.splits)

lemma pollInitialized_events:
  assumes "pollInitialized e nodeName (t, once) = (r, (t', once'))"
  shows "\<exists>es. t' = t @ es \<and> \<not> list_ex isDelete es \<and>
              (r = None \<longrightarrow> list_ex (observedInitialized nodeName) es)"
  using assms
  by (auto simp: pollInitialized_def Let_def split: sum.splits option.splits if_splits)

lemma retryDo_poll_events:
  "retryDo (pollInitialized e nodeName) n (t, once) = (r, (t', once')) \<Longrightarrow>
     \<exists>es. t' = t @ es \<and> \<not> list_ex isDelete es \<and>
          (r = None \<longrightarrow> list_ex (observedInitialized nodeName) es)"
proof (induction n arbitrary: t once)
  case 0
  then show ?case using pollInitialized_events [of e nodeName t once r t' once'] by simp
next
  case (Suc n)
  obtain r1 t1 once1 where p: "pollInitialized e nodeName (t, once) = (r1, (t1, once1))"
    by (metis prod.exhaust)
  from pollInitialized_events [OF p] obtain es1 where
    es1: "t1 = t @ es1" "\<not> list_ex isDelete es1"
         "r1 = None \<longrightarrow> list_ex (observedInitialized nodeName) es1"
    by blast
  show ?case
  proof (cases r1)
    case None
    with Suc.prems p have "r = None" "t' = t1" by simp_all
    with es1 None show ?thesis by blast
  next
    case (Some err)
    with Suc.prems p have "retryDo (pollInitialized e nodeName) n (t1, once1) = (r, (t', once'))"
      by simp
    from Suc.IH [OF this] obtain es2 where
      "t' = t1 @ es2" "\<not> list_ex isDelete es2"
      "r = None \<longrightarrow> list_ex (observedInitialized nodeName) es2"
      by blast
    with es1 show ?thesis
      by (intro exI [of _ "es1 @ es2"]) auto
  qed
qed

lemma launchReplacementNode_events:
  assumes "launchReplacementNode e a t = (r, t')"
  shows "\<exists>es. t' = t @ es \<and> \<not> list_ex isDelete es \<and>
           (r = None \<longrightarrow>
              (\<exists>b1 newName b2. es = b1 @ LaunchNodes (Inr [newName]) # b2 \<and>
                 list_ex (observedInitialized newName) b2))"
proof (cases "oldNodes a")
  case Nil
  with assms show ?thesis by (auto simp: launchReplacementNode_def)
next
  case (Cons old rest)
  show ?thesis
  proof (cases rest)
    case (Cons x xs)
    with assms \<open>oldNodes a = old # rest\<close> show ?thesis by (auto simp: launchReplacementNode_def)
  next
    case Nil
    with \<open>oldNodes a = old # rest\<close> have o: "oldNodes a = [old]" by simp
    obtain c t1 where s: "setNodeUnschedulable e (Name old) True t = (c, t1)"
      by (metis prod.exhaust)
    from setNodeUnschedulable_events [of e "Name old" True t] s obtain es1 where
      es1: "t1 = t @ es1" "\<not> list_ex isDelete es1" by auto
    show ?thesis
    proof (cases c)
      case (Some err)
      with assms o s es1 show ?thesis by (auto simp: launchReplacementNode_def)
    next
      case None
      note c = None
      show ?thesis
      proof (cases "launchNodes e t1 (replacementNode a)")
        case (Inl err)
        with assms o s c es1 show ?thesis by (auto simp: launchReplacementNode_def)
      next
        case (Inr nodeNames)
        show ?thesis
        proof (cases "\<exists>newName. nodeNames = [newName]")
          case False
          with assms o s c es1 Inr show ?thesis
            by (auto simp: launchReplacementNode_def Let_def split: list.splits)
        next
          case True
          then obtain newName where nn: "nodeNames = [newName]" by blast
          obtain w t3 once3 where
            w: "retryDo (pollInitialized e newName) (retryAttempts - 1)
                  (t1 @ [LaunchNodes (Inr [newName])], False) = (w, (t3, once3))"
            by (metis prod.exhaust)
          from retryDo_poll_events [OF w] obtain es2 where
            es2: "t3 = (t1 @ [LaunchNodes (Inr [newName])]) @ es2" "\<not> list_ex isDelete es2"
                 "w = None \<longrightarrow> list_ex (observedInitialized newName) es2"
            by blast
          show ?thesis
          proof (cases w)
            case None
            with assms o s c Inr nn w have "r = None" "t' = t3"
              by (simp_all add: launchReplacementNode_def Let_def)
            with es1 es2 None show ?thesis
              by (intro exI [of _ "es1 @ LaunchNodes (Inr [newName]) # es2"]) auto
          next
            case (Some err)
            obtain u t4 where u: "setNodeUnschedulable e (Name old) False t3 = (u, t4)"
              by (metis prod.exhaust)
            from setNodeUnschedulable_events [of e "Name old" False t3] u obtain es3 where
              es3: "t4 = t3 @ es3" "\<not> list_ex isDelete es3" by auto
            from assms o s c Inr nn w Some u have "r \<noteq> None" "t' = t4"
              by (auto simp: launchReplacementNode_def Let_def)
            with es1 es2 es3 show ?thesis
              by (intro exI [of _ "es1 @ LaunchNodes (Inr [newName]) # es2 @ es3"]) auto
          qed
        qed
      qed
    qed
  qed
qed

lemma deleteOldNodes_events:
  "\<exists>es. deleteOldNodes e ns t = t @ es \<and> deletedNames es = map Name ns \<and>
        (\<forall>ev \<in> set es. isDelete ev \<or> (\<exists>n. ev = Recorded (TerminatingNodeForConsolidation n)))"
proof (induction ns arbitrary: t)
  case Nil
  then show ?case by simp
next
  case (Cons n ns)
  let ?t1 = "t @ [Recorded (TerminatingNodeForConsolidation n)]"
  let ?t2 = "?t1 @ [KubeDelete (Name n) (kubeDelete e ?t1 n)]"
  from Cons.IH [of ?t2] obtain es where
    es: "deleteOldNodes e ns ?t2 = ?t2 @ es" "deletedNames es = map Name ns"
        "\<forall>ev \<in> set es. isDelete ev \<or> (\<exists>n. ev = Recorded (TerminatingNodeForConsolidation n))"
    by blast
  show ?case
    by (intro exI [of _ "Recorded (TerminatingNodeForConsolidation n) #
          KubeDelete (Name n) (kubeDelete e ?t1 n) # es"])
       (use es in \<open>auto simp: Let_def\<close>)
qed

lemma append_split_after:
  assumes "xs @ ys = before @ x # after" and "x \<notin> set xs"
  shows "\<exists>d. before = xs @ d"
proof -
  from assms(1) obtain us where
    "(xs = before @ us \<and> us @ ys = x # after) \<or> (xs @ us = before \<and> ys = us @ x # after)"
    by (auto simp: append_eq_append_conv2)
  then show ?thesis
  proof
    assume a: "xs = before @ us \<and> us @ ys = x # after"
    show ?thesis
    proof (cases us)
      case Nil
      with a show ?thesis by simp
    next
      case (Cons u us')
      with a have "x \<in> set xs" by simp
      with assms(2) show ?thesis by simp
    qed
  next
    assume "xs @ us = before \<and> ys = us @ x # after"
    then show ?thesis by blast
  qed
qed

lemma poll_never_ready:
  assumes "\<And>t'. case kubeGet e t' newName of Inl err \<Rightarrow> True
                 | Inr k \<Rightarrow> map_of (Labels k) LabelNodeInitialized = None"
  shows "fst (retryDo (pollInitialized e newName) n s) \<noteq> None"
proof (induction n arbitrary: s)
  case 0
  obtain t once where "s = (t, once)" by (metis prod.exhaust)
  then show ?case using assms [of t]
    by (auto simp: pollInitialized_def Let_def split: sum.splits option.splits)
next
  case (Suc n)
  obtain t once where s: "s = (t, once)" by (metis prod.exhaust)
  have "fst (pollInitialized e newName (t, once)) \<noteq> None"
    using assms [of t]
    by (auto simp: pollInitialized_def Let_def split: sum.splits option.splits)
  then obtain err s' where "pollInitialized e newName (t, once) = (Some err, s')"
    by (metis prod.collapse option.exhaust)
  then show ?case using Suc.IH [of s'] s by simp
qed

lemma performConsolidation_extends:
  "\<exists>es. performConsolidation e action t = t @ es"
proof -
  obtain r t1 where l: "launchReplacementNode e action t = (r, t1)" by (metis prod.exhaust)
  from launchReplacementNode_events [OF l] obtain es1 where es1: "t1 = t @ es1" by blast
  from deleteOldNodes_events [of e "oldNodes action" t1] obtain es2 where
    "deleteOldNodes e (oldNodes action) t1 = t1 @ es2" by blast
  moreover from deleteOldNodes_events [of e "oldNodes action" t] obtain es3 where
    "deleteOldNodes e (oldNodes action) t = t @ es3" by blast
  ultimately show ?thesis using l es1
    by (auto simp: performConsolidation_def split: option.splits)
qed

lemma launch_fails_on_exhaustion:
  assumes "oldNodes action = [old]"
      and "setNodeUnschedulable e (Name old) True t = (None, t1)"
      and "launchNodes e t1 (replacementNode action) = Inr [newName]"
      and "fst (retryDo (pollInitialized e newName) (retryAttempts - 1)
                 (t1 @ [LaunchNodes (Inr [newName])], False)) \<noteq> None"
  shows "fst (launchReplacementNode e action t) \<noteq> None"
proof -
  obtain w t3 once3 where
    w: "retryDo (pollInitialized e newName) (retryAttempts - 1)
          (t1 @ [LaunchNodes (Inr [newName])], False) = (w, (t3, once3))"
    by (metis prod.exhaust)
  with assms(4) obtain x where x: "w = Some x" by auto
  obtain u t4 where u: "setNodeUnschedulable e (Name old) False t3 = (u, t4)"
    by (metis prod.exhaust)
  show ?thesis
    using assms(1-3) w x u by (simp add: launchReplacementNode_def Let_def)
qed

lemma replace_failed_no_delete:
  assumes "result action = consolidateResultReplace"
      and "fst (launchReplacementNode e action t) \<noteq> None"
  shows "\<not> list_ex isDelete (drop (length t) (performConsolidation e action t))"
proof -
  obtain r t1 where l: "launchReplacementNode e action t = (r, t1)" by (metis prod.exhaust)
  from launchReplacementNode_events [OF l] obtain es1 where
    "t1 = t @ es1" "\<not> list_ex isDelete es1" by blast
  then show ?thesis using assms l
    by (auto simp: performConsolidation_def split: option.splits)
qed

lemma retryDo_first_success:
  "fst (f s) = None \<Longrightarrow> retryDo f n s = f s"
  by (cases n; cases "f s") auto

lemmas executor_eval = performConsolidation_def launchReplacementNode_def
  setNodeUnschedulable_def pollInitialized_def retryAttempts_def combineErr_def
  replacingEnv_def launchFailEnv_def replaceAction_def oldNode_def example_defs
  IsZero_def LabelNodeInitialized_def Let_def

lemma replacing_cordon:
  "setNodeUnschedulable (replacingEnv k ls) (Name oldNode) True [] =
     (None, [KubeGet ''old'' (Inr oldNode), KubePatch ''old'' True None])"
  by (simp add: setNodeUnschedulable_def replacingEnv_def oldNode_def example_defs IsZero_def)

lemma launchFail_cordon:
  "setNodeUnschedulable launchFailEnv (Name oldNode) True [] =
     (None, [KubeGet ''old'' (Inr oldNode), KubePatch ''old'' True None])"
  by (simp add: setNodeUnschedulable_def launchFailEnv_def replacingEnv_def oldNode_def
      example_defs IsZero_def)

lemma replacing_trace:
  "performConsolidation (replacingEnv 4 [(LabelNodeInitialized, ''true'')]) replaceAction [] =
     [KubeGet ''old'' (Inr oldNode), KubePatch ''old'' True None, LaunchNodes (Inr [''new'']),
      KubeGet ''new'' (Inr (mkNode ''new'' [])),
      Recorded (LaunchingNodeForConsolidation (mkNode ''new'' [])),
      Recorded (WaitingOnReadinessForConsolidation (mkNode ''new'' [])),
      KubeGet ''new'' (Inr (mkNode ''new'' [(LabelNodeInitialized, ''true'')])),
      Recorded (TerminatingNodeForConsolidation oldNode), KubeDelete ''old'' None]"
  by (simp add: executor_eval eval_nat_numeral)

subsection \<open>Candidate selection\<close>

lemma visitNode_flag_stays:
  "visitNode e ps its n (nodes, True, t) = (nodes, True, t)"
  by (simp add: visitNode_def split: option.splits)

lemma fold_visitNode_flag_stays:
  "fold (visitNode e ps its) ns (nodes, True, t) = (nodes, True, t)"
  by (induction ns) (simp_all add: visitNode_flag_stays)

lemma getNodePods_trace:
  "snd (getNodePods e nodeName t) = t @ [ListPods nodeName]"
  by (simp add: getNodePods_def split: sum.splits)

lemma visitNode_sets_flag:
  assumes "consolidatable ps its n" and "lookup (Labels n) LabelNodeInitialized \<noteq> ''true''"
  shows "\<exists>nodes' t'. visitNode e ps its n (nodes, u, t) = (nodes', True, t')"
  using assms
  by (cases u) (auto simp: visitNode_def consolidatable_def split: option.splits)

lemma fold_visitNode_sets_flag:
  assumes "n \<in> set ns" and "consolidatable ps its n"
      and "lookup (Labels n) LabelNodeInitialized \<noteq> ''true''"
  shows "\<exists>nodes' t'. fold (visitNode e ps its) ns s = (nodes', True, t')"
  using assms(1)
proof (induction ns arbitrary: s)
  case Nil
  then show ?case by simp
next
  case (Cons m ns)
  obtain nodes u t where s: "s = (nodes, u, t)" by (metis prod.exhaust)
  show ?case
  proof (cases "m = n")
    case True
    from visitNode_sets_flag [OF assms(2,3), of e nodes u t] obtain nodes' t' where
      "visitNode e ps its n (nodes, u, t) = (nodes', True, t')" by blast
    with True s show ?thesis by (simp add: fold_visitNode_flag_stays)
  next
    case False
    with Cons.prems have "n \<in> set ns" by simp
    from Cons.IH [OF this, of "visitNode e ps its m s"] show ?thesis by simp
  qed
qed

lemma visitNode_trace:
  "\<exists>es. snd (snd (visitNode e ps its n (nodes, u, t))) = t @ es \<and> list_all isListCall es"
proof -
  obtain r t' where g: "getNodePods e (Name n) t = (r, t')" by (metis prod.exhaust)
  then have "t' = t @ [ListPods (Name n)]"
    using getNodePods_trace [of e "Name n" t] by simp
  with g show ?thesis
    by (auto simp: visitNode_def split: option.splits sum.splits)
qed

lemma fold_visitNode_trace:
  "\<exists>es. snd (snd (fold (visitNode e ps its) ns (nodes, u, t))) = t @ es \<and> list_all isListCall es"
proof (induction ns arbitrary: nodes u t)
  case Nil
  then show ?case by simp
next
  case (Cons n ns)
  obtain nodes1 u1 t1 where v: "visitNode e ps its n (nodes, u, t) = (nodes1, u1, t1)"
    by (metis prod.exhaust)
  from visitNode_trace [of e ps its n nodes u t] v obtain es1 where
    es1: "t1 = t @ es1" "list_all isListCall es1" by auto
  from Cons.IH [of nodes1 u1 t1] obtain es2 where
    "snd (snd (fold (visitNode e ps its) ns (nodes1, u1, t1))) = t1 @ es2"
    "list_all isListCall es2" by blast
  with es1 v show ?case
    by (intro exI [of _ "es1 @ es2"]) simp
qed

lemma buildProvisionerMap_trace:
  "snd (buildProvisionerMap e t) = t @ [ListProvisioners]"
  by (simp add: buildProvisionerMap_def split: sum.splits)

lemma candidateNodes_trace:
  "\<exists>es. snd (candidateNodes e t) = t @ es \<and> list_all isListCall es"
proof (cases "fst (buildProvisionerMap e t)")
  case (Inl err)
  then have "buildProvisionerMap e t = (Inl err, t @ [ListProvisioners])"
    using buildProvisionerMap_trace [of e t] by (metis prod.collapse)
  then show ?thesis by (simp add: candidateNodes_def)
next
  case (Inr m)
  obtain ps its where m: "m = (ps, its)" by (metis prod.exhaust)
  with Inr have b: "buildProvisionerMap e t = (Inr (ps, its), t @ [ListProvisioners])"
    using buildProvisionerMap_trace [of e t] by (metis prod.collapse)
  obtain nodes u t2 where
    f: "fold (visitNode e ps its) (stateNodes e) ([], False, t @ [ListProvisioners]) = (nodes, u, t2)"
    by (metis prod.exhaust)
  from fold_visitNode_trace [of e ps its "stateNodes e" "[]" False "t @ [ListProvisioners]"] f
  obtain es where "t2 = (t @ [ListProvisioners]) @ es" "list_all isListCall es" by auto
  with b f show ?thesis
    by (intro exI [of _ "ListProvisioners # es"]) (simp add: candidateNodes_def)
qed

lemma candidateNodes_uninitialized:
  assumes "fst (buildProvisionerMap e t) = Inr (ps, its)"
      and "n \<in> set (stateNodes e)" and "consolidatable ps its n"
      and "lookup (Labels n) LabelNodeInitialized \<noteq> ''true''"
  shows "fst (candidateNodes e t) = Inr []"
proof -
  obtain t1 where b: "buildProvisionerMap e t = (Inr (ps, its), t1)"
    using assms(1) by (metis prod.collapse)
  from fold_visitNode_sets_flag [OF assms(2-4), of e "([], False, t1)"] obtain nodes' t' where
    "fold (visitNode e ps its) (stateNodes e) ([], False, t1) = (nodes', True, t')" by blast
  with b show ?thesis by (simp add: candidateNodes_def)
qed

lemmas cluster_eval = ProcessCluster_def candidateNodes_def buildProvisionerMap_def
  visitNode_def getNodePods_def performConsolidation_def emptyAction_def
  clusterEnv_def managedLabels_def emptyNode_def foreignNode_def startingNode_def
  goneNode_def busyNode_def daemonPod_def guardedEnv_def foreignEnv_def startingEnv_def
  example_defs
  lookup_def BoolValue_def podsDisruptionCost_def
  ProvisionerNameLabelKey_def LabelInstanceTypeStable_def LabelNodeInitialized_def
  DoNotConsolidateNodeAnnotationKey_def Let_def

lemma foreign_cluster_trace:
  "ProcessCluster foreignEnv [] =
     ((ProcessResultConsolidated, None),
      [ListProvisioners, ListPods ''empty'',
       Recorded (TerminatingNodeForConsolidation emptyNode), KubeDelete ''empty'' None])"
  by (simp add: cluster_eval)

lemma no_delete_names:
  "\<not> list_ex isDelete es \<Longrightarrow> deletedNames es = []"
  by (induction es rule: deletedNames.induct) auto

lemma deletedNames_append:
  "deletedNames (xs @ ys) = deletedNames xs @ deletedNames ys"
  by (induction xs rule: deletedNames.induct) auto

lemma getNodePods_only_skipped:
  assumes "listPods e t nodeName = Inr items"
      and "\<forall>p \<in> set items. IsOwnedByNode p \<or> IsOwnedByDaemonSet p \<or> IsTerminal p"
  shows "fst (getNodePods e nodeName t) = Inr []"
  using assms by (auto simp: getNodePods_def filter_empty_conv)

lemma guarded_candidates:
  "candidateNodes guardedEnv [] =
     (Inr [mkCandidate goneNode (mkType ''large'' 3) [],
           mkCandidate busyNode (mkType ''large'' 3) [mkPod ''p'']],
      [ListProvisioners, ListPods ''gone'', ListPods ''busy''])"
  by (simp add: cluster_eval)

lemma guarded_trace:
  "ProcessCluster guardedEnv [] =
     ((ProcessResultConsolidated, None),
      [ListProvisioners, ListPods ''gone'', ListPods ''busy'',
       Recorded (TerminatingNodeForConsolidation goneNode), KubeDelete ''gone'' None])"
  by (simp add: cluster_eval)

subsection \<open>Sorting by disruption cost\<close>

lemma mset_insertBy:
  "mset (insertBy lt x xs) = add_mset x (mset xs)"
  by (induction xs) auto

lemma mset_fold_insertBy:
  "mset (fold (insertBy lt) xs acc) = mset xs + mset acc"
  by (induction xs arbitrary: acc) (auto simp: mset_insertBy)

lemma mset_insertionSort:
  "mset (insertionSort lt xs) = mset xs"
  by (simp add: insertionSort_def mset_fold_insertBy)

lemma costOrder_not_less:
  "costOrder a b = (\<not> byNodeDisruptionCost b a)"
  by (auto simp: costOrder_def byNodeDisruptionCost_def)

lemma costOrder_trans:
  "costOrder a b \<Longrightarrow> costOrder b c \<Longrightarrow> costOrder a c"
  by (auto simp: costOrder_def)

lemma set_insertBy:
  "set (insertBy lt x xs) = insert x (set xs)"
  by (induction xs) auto

lemma sorted_insertBy:
  "sorted_wrt costOrder xs \<Longrightarrow> sorted_wrt costOrder (insertBy byNodeDisruptionCost x xs)"
proof (induction xs)
  case Nil
  then show ?case by simp
next
  case (Cons y ys)
  show ?case
  proof (cases "byNodeDisruptionCost x y")
    case True
    then have xy: "costOrder x y"
      by (auto simp: costOrder_def byNodeDisruptionCost_def split: if_splits)
    have "\<forall>z \<in> set ys. costOrder x z"
      using Cons.prems xy costOrder_trans by auto
    with True xy Cons.prems show ?thesis by simp
  next
    case False
    then have "costOrder y x" by (simp add: costOrder_not_less)
    with False Cons show ?thesis by (auto simp: set_insertBy)
  qed
qed

lemma sorted_fold_insertBy:
  "sorted_wrt costOrder acc \<Longrightarrow>
     sorted_wrt costOrder (fold (insertBy byNodeDisruptionCost) xs acc)"
  by (induction xs arbitrary: acc) (auto simp: sorted_insertBy)

lemma sorted_insertionSort:
  "sorted_wrt costOrder (insertionSort byNodeDisruptionCost cs)"
  by (simp add: insertionSort_def sorted_fold_insertBy)

lemma planner_oldNodes:
  assumes "result (nodeConsolidationActions e c) = consolidateResultDelete \<or>
           result (nodeConsolidationActions e c) = consolidateResultReplace"
  shows "oldNodes (nodeConsolidationActions e c) = [node c]"
  using assms
  by (auto simp: nodeConsolidationActions_result nodeConsolidationActions_oldNodes
      nodeConsolidationOptionReplaceOrDelete_def emptyAction_def Let_def
      split: option.splits sum.splits prod.splits list.splits if_splits)

lemma performConsolidation_single_delete:
  assumes "oldNodes action = [old]"
  shows "length (deletedNames (drop (length t) (performConsolidation e action t))) \<le> 1"
proof -
  obtain r t1 where l: "launchReplacementNode e action t = (r, t1)" by (metis prod.exhaust)
  from launchReplacementNode_events [OF l] obtain es1 where
    es1: "t1 = t @ es1" "\<not> list_ex isDelete es1" by blast
  from deleteOldNodes_events [of e "[old]" t1] obtain es2 where
    es2: "deleteOldNodes e [old] t1 = t1 @ es2" "deletedNames es2 = map Name [old]" by blast
  from deleteOldNodes_events [of e "[old]" t] obtain es3 where
    es3: "deleteOldNodes e [old] t = t @ es3" "deletedNames es3 = map Name [old]" by blast
  have c1: "length (deletedNames (drop (length t) t)) \<le> 1" by simp
  have c2: "length (deletedNames (drop (length t) t1)) \<le> 1"
    using es1 by (simp add: no_delete_names)
  have c3: "length (deletedNames (drop (length t) (deleteOldNodes e [old] t1))) \<le> 1"
    using es1 es2 by (simp add: deletedNames_append no_delete_names)
  have c4: "length (deletedNames (drop (length t) (deleteOldNodes e [old] t))) \<le> 1"
    using es3 by simp
  show ?thesis
    unfolding performConsolidation_def assms l
    using c1 c2 c3 c4 by (simp split: option.splits)
qed

subsection \<open>Nodes that candidate selection skips\<close>

lemma visitNode_skips:
  "\<not> consolidatable ps its n \<Longrightarrow> visitNode e ps its n s = s"
  by (cases s) (auto simp: visitNode_def consolidatable_def split: option.splits)

lemma fold_visitNode_filter:
  "fold (visitNode e ps its) (filter (consolidatable ps its) ns) s =
     fold (visitNode e ps its) ns s"
  by (induction ns arbitrary: s) (simp_all add: visitNode_skips)

lemma getNodePods_stateNodes:
  "getNodePods (e\<lparr>stateNodes := ns\<rparr>) nodeName t = getNodePods e nodeName t"
  by (simp add: getNodePods_def)

lemma visitNode_stateNodes:
  "visitNode (e\<lparr>stateNodes := ns\<rparr>) ps its n s = visitNode e ps its n s"
  by (cases s) (auto simp: visitNode_def getNodePods_stateNodes split: option.splits)

lemma fold_visitNode_stateNodes:
  "fold (visitNode (e\<lparr>stateNodes := ns\<rparr>) ps its) ms s = fold (visitNode e ps its) ms s"
  by (induction ms arbitrary: s) (simp_all add: visitNode_stateNodes)

lemma buildProvisionerMap_stateNodes:
  "buildProvisionerMap (e\<lparr>stateNodes := ns\<rparr>) t = buildProvisionerMap e t"
proof -
  have "provisionerLoop (e\<lparr>stateNodes := ns\<rparr>) items ps its = provisionerLoop e items ps its"
    for items ps its
    by (induction items arbitrary: ps its) (simp_all split: sum.splits)
  then show ?thesis by (simp add: buildProvisionerMap_def split: sum.splits)
qed

lemma candidateNodes_filter:
  assumes "fst (buildProvisionerMap e t) = Inr (ps, its)"
  shows "candidateNodes (e\<lparr>stateNodes := filter (consolidatable ps its) (stateNodes e)\<rparr>) t =
         candidateNodes e t"
proof -
  obtain t1 where b: "buildProvisionerMap e t = (Inr (ps, its), t1)"
    using assms by (metis prod.collapse)
  then show ?thesis
    by (simp add: candidateNodes_def buildProvisionerMap_stateNodes fold_visitNode_stateNodes
        fold_visitNode_filter)
qed

lemma exotic_cluster_trace:
  "ProcessCluster exoticEnv [] =
     ((ProcessResultConsolidated, None),
      [ListProvisioners, ListPods ''empty'',
       Recorded (TerminatingNodeForConsolidation emptyNode), KubeDelete ''empty'' None])"
  by (simp add: cluster_eval exoticEnv_def exoticNode_def)

subsection \<open>The first consolidatable candidate\<close>

lemma costOrder_fun:
  "(\<lambda>a b. \<not> byNodeDisruptionCost b a) = costOrder"
  by (intro ext) (simp add: costOrder_not_less)

lemma costOrder_refl:
  "costOrder c c"
  by (simp add: costOrder_def)

lemma sortsBy_insertionSort:
  "sortsBy insertionSort byNodeDisruptionCost cs"
  by (simp add: sortsBy_def mset_insertionSort costOrder_fun sorted_insertionSort)

lemma sortsBy_reverseTiesSort:
  "sortsBy reverseTiesSort byNodeDisruptionCost cs"
  using sortsBy_insertionSort [of "rev cs"]
  by (simp add: sortsBy_def reverseTiesSort_def)

lemma find_sorted_least:
  assumes "find P xs = Some x" and "sorted_wrt R xs" and "\<And>z. R z z"
      and "y \<in> set xs" and "P y"
  shows "R x y"
  using assms(1,2,4)
proof (induction xs)
  case Nil
  then show ?case by simp
next
  case (Cons a xs)
  show ?case
  proof (cases "P a")
    case True
    with Cons.prems(1) have "x = a" by simp
    with Cons.prems(2,3) assms(3) show ?thesis by auto
  next
    case False
    with Cons.prems(3) assms(5) have "y \<in> set xs" by auto
    moreover from False Cons.prems(1) have "find P xs = Some x" by simp
    moreover from Cons.prems(2) have "sorted_wrt R xs" by simp
    ultimately show ?thesis by (rule Cons.IH [rotated 2])
  qed
qed

lemmas tick_defs = candA_def candB_def candC_def tickEnv_def agedNode_def

lemma tick_sorted:
  "sortSlice tickEnv byNodeDisruptionCost [candB, candA, candC] = [candC, candA, candB]"
  by (simp add: insertionSort_def byNodeDisruptionCost_def tick_defs clusterEnv_def quietEnv_def
      mkCandidate_def podsDisruptionCost_def mkPod_def mkNode_def)

lemma tick_candidates:
  "candidateNodes tickEnv [] =
     (Inr [candB, candA, candC],
      [ListProvisioners, ListPods ''b'', ListPods ''a'', ListPods ''c''])"
  by (simp add: tick_defs cluster_eval)

lemma tick_gate:
  "canBeTerminated candA (\<lambda>ps. True) = None"
  "canBeTerminated candB (\<lambda>ps. True) = None"
  "canBeTerminated candC (\<lambda>ps. True) = None"
  by (simp_all add: canBeTerminated_def podsPreventEviction_def tick_defs mkCandidate_def
      mkNode_def mkPod_def IsZero_def)

lemma tick_actions:
  "result (nodeConsolidationActions tickEnv candC) = consolidateResultNotPossible"
  "nodeConsolidationActions tickEnv candA =
     \<lparr>oldNodes = [agedNode ''a'' 70], actionDisruptionCost = 1, savings = 3,
      result = consolidateResultDelete, replacementNode = None\<rparr>"
  "result (nodeConsolidationActions tickEnv candB) = consolidateResultDelete"
  by (simp_all add: tick_defs clusterEnv_def planner_eval)

lemma tick_selectable:
  "\<not> selectable tickEnv (\<lambda>ps. True) candC"
  "selectable tickEnv (\<lambda>ps. True) candA"
  "selectable tickEnv (\<lambda>ps. True) candB"
  by (simp_all add: selectable_def tick_gate tick_actions)

lemma tick_delete:
  "performConsolidation tickEnv
     \<lparr>oldNodes = [agedNode ''a'' 70], actionDisruptionCost = 1, savings = 3,
      result = consolidateResultDelete, replacementNode = None\<rparr>
     [ListProvisioners, ListPods ''b'', ListPods ''a'', ListPods ''c'', ListPodDisruptionBudgets] =
   [ListProvisioners, ListPods ''b'', ListPods ''a'', ListPods ''c'', ListPodDisruptionBudgets,
    Recorded (TerminatingNodeForConsolidation (agedNode ''a'' 70)), KubeDelete ''a'' None]"
  by (simp add: performConsolidation_def tickEnv_def clusterEnv_def quietEnv_def agedNode_def
      mkNode_def)

lemmas twin_defs = candX_def candY_def twinEnv_def twinEnvTurned_def agedNode_def

lemma twin_sorted:
  "sortSlice twinEnv byNodeDisruptionCost [candX, candY] = [candX, candY]"
  "sortSlice twinEnvTurned byNodeDisruptionCost [candX, candY] = [candY, candX]"
  by (simp_all add: insertionSort_def reverseTiesSort_def byNodeDisruptionCost_def twin_defs
      clusterEnv_def quietEnv_def mkCandidate_def podsDisruptionCost_def mkPod_def mkNode_def)

lemma twin_candidates:
  "candidateNodes twinEnv [] =
     (Inr [candX, candY], [ListProvisioners, ListPods ''x'', ListPods ''y''])"
  "candidateNodes twinEnvTurned [] =
     (Inr [candX, candY], [ListProvisioners, ListPods ''x'', ListPods ''y''])"
  by (simp_all add: twin_defs cluster_eval)

lemma twin_selectable:
  "selectable twinEnv (\<lambda>ps. True) candX"
  "selectable twinEnvTurned (\<lambda>ps. True) candY"
  by (simp_all add: selectable_def canBeTerminated_def podsPreventEviction_def IsZero_def
      twin_defs clusterEnv_def planner_eval)

lemma twin_delete:
  "performConsolidation twinEnv (nodeConsolidationActions twinEnv candX)
     [ListProvisioners, ListPods ''x'', ListPods ''y'', ListPodDisruptionBudgets] =
   [ListProvisioners, ListPods ''x'', ListPods ''y'', ListPodDisruptionBudgets,
    Recorded (TerminatingNodeForConsolidation (agedNode ''x'' 50)), KubeDelete ''x'' None]"
  "performConsolidation twinEnvTurned (nodeConsolidationActions twinEnvTurned candY)
     [ListProvisioners, ListPods ''x'', ListPods ''y'', ListPodDisruptionBudgets] =
   [ListProvisioners, ListPods ''x'', ListPods ''y'', ListPodDisruptionBudgets,
    Recorded (TerminatingNodeForConsolidation (agedNode ''y'' 50)), KubeDelete ''y'' None]"
  by (simp_all add: performConsolidation_def twin_defs clusterEnv_def planner_eval)

subsection \<open>The readiness wait\<close>

lemma poll_succeeds_iff:
  "(fst (pollInitialized e nodeName (t, once)) = None) =
     (\<exists>k8Node v. kubeGet e t nodeName = Inr k8Node \<and>
        map_of (Labels k8Node) LabelNodeInitialized = Some v)"
  by (auto simp: pollInitialized_def Let_def split: sum.splits option.splits)

lemma poll_success_state:
  assumes "kubeGet e t nodeName = Inr k8Node"
      and "map_of (Labels k8Node) LabelNodeInitialized = Some v"
  shows "pollInitialized e nodeName (t, once) =
           (None, (t @ KubeGet nodeName (Inr k8Node) #
                     (if once then [] else [Recorded (LaunchingNodeForConsolidation k8Node)]),
                   True))"
  using assms by (simp add: pollInitialized_def Let_def)

lemma retryDo_first_success_at:
  "k \<le> m \<Longrightarrow> (\<forall>j<k. fst (f (attemptState f j s)) \<noteq> None) \<Longrightarrow>
   fst (f (attemptState f k s)) = None \<Longrightarrow> retryDo f m s = f (attemptState f k s)"
proof (induction k arbitrary: m s)
  case 0
  then show ?case by (simp add: retryDo_first_success)
next
  case (Suc k)
  from Suc.prems(1) obtain m' where m: "m = Suc m'" and km: "k \<le> m'"
    by (cases m) auto
  from Suc.prems(2) have "fst (f (attemptState f 0 s)) \<noteq> None" by blast
  then obtain err s' where fs: "f s = (Some err, s')"
    by (cases "f s") auto
  have later: "\<forall>j<k. fst (f (attemptState f j s')) \<noteq> None"
  proof (intro allI impI)
    fix j assume "j < k"
    then have "Suc j < Suc k" by simp
    with Suc.prems(2) have "fst (f (attemptState f (Suc j) s)) \<noteq> None" by blast
    with fs show "fst (f (attemptState f j s')) \<noteq> None" by simp
  qed
  from Suc.prems(3) fs have "fst (f (attemptState f k s')) = None" by simp
  from Suc.IH [OF km later this] fs m show ?case by simp
qed

lemma retryDo_exhausted:
  "(\<forall>j\<le>m. fst (f (attemptState f j s)) \<noteq> None) \<Longrightarrow> retryDo f m s = f (attemptState f m s)"
proof (induction m arbitrary: s)
  case 0
  then show ?case by simp
next
  case (Suc m)
  from Suc.prems have "fst (f (attemptState f 0 s)) \<noteq> None" by blast
  then obtain err s' where fs: "f s = (Some err, s')"
    by (cases "f s") auto
  have "\<forall>j\<le>m. fst (f (attemptState f j s')) \<noteq> None"
  proof (intro allI impI)
    fix j assume "j \<le> m"
    then have "Suc j \<le> Suc m" by simp
    with Suc.prems have "fst (f (attemptState f (Suc j) s)) \<noteq> None" by blast
    with fs show "fst (f (attemptState f j s')) \<noteq> None" by simp
  qed
  from Suc.IH [OF this] fs show ?case by simp
qed

lemma deleteOldNodes_single:
  "deleteOldNodes e [old] tw =
     tw @ [Recorded (TerminatingNodeForConsolidation old),
           KubeDelete (Name old)
             (kubeDelete e (tw @ [Recorded (TerminatingNodeForConsolidation old)]) old)]"
  by (simp add: Let_def)

lemma replace_after_wait:
  assumes "result action = consolidateResultReplace"
      and "oldNodes action = [old]"
      and "setNodeUnschedulable e (Name old) True t = (None, t1)"
      and "launchNodes e t1 (replacementNode action) = Inr [newName]"
      and "retryDo (pollInitialized e newName) (retryAttempts - 1)
             (t1 @ [LaunchNodes (Inr [newName])], False) = (None, (tw, oncew))"
  shows "performConsolidation e action t = deleteOldNodes e [old] tw"
proof -
  have "launchReplacementNode e action t = (None, tw)"
    using assms(2-5) by (simp add: launchReplacementNode_def Let_def)
  with assms(1,2) show ?thesis
    by (simp add: performConsolidation_def)
qed

lemma lateLabel_first_poll:
  "pollInitialized lateLabelEnv ''new''
     ([KubeGet ''old'' (Inr oldNode), KubePatch ''old'' True None, LaunchNodes (Inr [''new''])],
      False) =
   (Some ''node is not initialized'',
    ([KubeGet ''old'' (Inr oldNode), KubePatch ''old'' True None, LaunchNodes (Inr [''new'']),
      KubeGet ''new'' (Inr (mkNode ''new'' [])),
      Recorded (LaunchingNodeForConsolidation (mkNode ''new'' [])),
      Recorded (WaitingOnReadinessForConsolidation (mkNode ''new'' []))], True))"
  by (simp add: pollInitialized_def lateLabelEnv_def replacingEnv_def quietEnv_def mkNode_def
      Let_def)

lemma lateLabel_second_get:
  "kubeGet lateLabelEnv
     [KubeGet ''old'' (Inr oldNode), KubePatch ''old'' True None, LaunchNodes (Inr [''new'']),
      KubeGet ''new'' (Inr (mkNode ''new'' [])),
      Recorded (LaunchingNodeForConsolidation (mkNode ''new'' [])),
      Recorded (WaitingOnReadinessForConsolidation (mkNode ''new'' []))] ''new'' =
   Inr (mkNode ''new'' falseLabels)"
  by (simp add: lateLabelEnv_def replacingEnv_def quietEnv_def)

lemma falseLabels_value:
  "map_of (Labels (mkNode ''new'' falseLabels)) LabelNodeInitialized = Some ''false''"
  by (simp add: mkNode_def falseLabels_def LabelNodeInitialized_def
      ProvisionerNameLabelKey_def LabelInstanceTypeStable_def)

section \<open>Properties of the action planner\<close>

text \<open>
  C3, with the first remaining option in place of the cheapest one. Every
  \<^verbatim>\<open>Replace\<close> action of the planner has positive savings: it comes from a simulation with exactly one new node, whose instance-type options are cut
  down to those strictly cheaper than the old node's price; the options that remain are
  not empty (an empty remainder gives \<^verbatim>\<open>NotPossible\<close>), and the savings are the old
  node's price minus the price of the first remaining option. That first option is the
  cheapest one whenever the simulator lists the options by ascending price.
  Prices are reals here; \<^verbatim>\<open>filterByPrice\<close> is modelled from the spec.
\<close>

theorem replace_savings:
  "(result (nodeConsolidationActions e cand) = consolidateResultReplace \<longrightarrow>
      0 < savings (nodeConsolidationActions e cand) \<and>
      (\<exists>n0 inflight.
         solve e cand = Inr ([n0], inflight) \<and>
         (let remaining = filterByPrice (InstanceTypeOptions n0) (Price (instanceType cand)) False
          in remaining \<noteq> [] \<and>
             (\<forall>it \<in> set remaining. Price it < Price (instanceType cand)) \<and>
             replacementNode (nodeConsolidationActions e cand) =
               Some (n0\<lparr>InstanceTypeOptions := remaining\<rparr>) \<and>
             savings (nodeConsolidationActions e cand) =
               Price (instanceType cand) - Price (hd remaining) \<and>
             (sorted (map Price (InstanceTypeOptions n0)) \<longrightarrow>
                (\<forall>it \<in> set remaining. Price (hd remaining) \<le> Price it))))) \<and>
   (newScheduler e cand = None \<and> solve e cand = Inr ([m0], infl) \<and>
    filterByPrice (InstanceTypeOptions m0) (Price (instanceType cand)) False = [] \<longrightarrow>
      result (nodeConsolidationActions e cand) = consolidateResultNotPossible)"
proof (intro conjI impI)
  assume r: "result (nodeConsolidationActions e cand) = consolidateResultReplace"
  then obtain n0 inflight it0 rest where
    s: "solve e cand = Inr ([n0], inflight)" and
    f: "filterByPrice (InstanceTypeOptions n0) (Price (instanceType cand)) False = it0 # rest" and
    a: "fst (nodeConsolidationOptionReplaceOrDelete e cand) =
             emptyAction\<lparr>oldNodes := [node cand],
               actionDisruptionCost := podsDisruptionCost (pods cand),
               savings := Price (instanceType cand) - Price it0,
               result := consolidateResultReplace,
               replacementNode := Some (n0\<lparr>InstanceTypeOptions := it0 # rest\<rparr>)\<rparr>"
    using planner_replace_cases [of e cand] by (auto simp: nodeConsolidationActions_result)
  have sv: "savings (nodeConsolidationActions e cand) = Price (instanceType cand) - Price it0"
    by (simp add: nodeConsolidationActions_savings a)
  have cheaper: "\<forall>it \<in> set (it0 # rest). Price it < Price (instanceType cand)"
    using filterByPrice_strict [of _ "InstanceTypeOptions n0" "Price (instanceType cand)"] f
    by metis
  then show "0 < savings (nodeConsolidationActions e cand)"
    using sv by simp
  have first: "sorted (map Price (InstanceTypeOptions n0)) \<longrightarrow>
                (\<forall>it \<in> set (it0 # rest). Price it0 \<le> Price it)"
  proof
    assume "sorted (map Price (InstanceTypeOptions n0))"
    then have "sorted (map Price (it0 # rest))"
      using filterByPrice_sorted [of "InstanceTypeOptions n0" "Price (instanceType cand)" False] f
      by simp
    then show "\<forall>it \<in> set (it0 # rest). Price it0 \<le> Price it"
      by auto
  qed
  show "\<exists>n0 inflight.
         solve e cand = Inr ([n0], inflight) \<and>
         (let remaining = filterByPrice (InstanceTypeOptions n0) (Price (instanceType cand)) False
          in remaining \<noteq> [] \<and>
             (\<forall>it \<in> set remaining. Price it < Price (instanceType cand)) \<and>
             replacementNode (nodeConsolidationActions e cand) =
               Some (n0\<lparr>InstanceTypeOptions := remaining\<rparr>) \<and>
             savings (nodeConsolidationActions e cand) =
               Price (instanceType cand) - Price (hd remaining) \<and>
             (sorted (map Price (InstanceTypeOptions n0)) \<longrightarrow>
                (\<forall>it \<in> set remaining. Price (hd remaining) \<le> Price it)))"
    apply (rule exI [of _ n0], rule exI [of _ inflight])
    using s f cheaper sv first
    by (simp add: Let_def nodeConsolidationActions_replacementNode a)
next
  assume "newScheduler e cand = None \<and> solve e cand = Inr ([m0], infl) \<and>
    filterByPrice (InstanceTypeOptions m0) (Price (instanceType cand)) False = []"
  then show "result (nodeConsolidationActions e cand) = consolidateResultNotPossible"
    by (simp add: nodeConsolidationActions_result nodeConsolidationOptionReplaceOrDelete_def
        emptyAction_def Let_def)
qed

theorem replace_savings_witness:
  "result (nodeConsolidationActions sortedEnv onDemandCandidate) = consolidateResultReplace \<and>
   0 < savings (nodeConsolidationActions sortedEnv onDemandCandidate) \<and>
   savings (nodeConsolidationActions sortedEnv onDemandCandidate) = 2 \<and>
   result (nodeConsolidationActions pricierEnv onDemandCandidate) = consolidateResultNotPossible"
proof -
  have r: "result (nodeConsolidationActions sortedEnv onDemandCandidate) = consolidateResultReplace"
    by (simp add: sortedEnv_def onDemandCandidate_def planner_eval)
  have s: "solve sortedEnv onDemandCandidate =
      Inr ([mkSchedNode [mkType ''small'' 1, mkType ''medium'' 2, mkType ''huge'' 5] {''on-demand''}], [])"
    by (simp add: sortedEnv_def quietEnv_def)
  have p: "0 < savings (nodeConsolidationActions sortedEnv onDemandCandidate) \<and>
     savings (nodeConsolidationActions sortedEnv onDemandCandidate) = 2"
    using replace_savings [of sortedEnv onDemandCandidate] r s
    by (auto simp: Let_def filterByPrice_def mkType_def mkSchedNode_def onDemandCandidate_def
        mkCandidate_def)
  have n: "newScheduler pricierEnv onDemandCandidate = None \<and>
     solve pricierEnv onDemandCandidate =
       Inr ([mkSchedNode [mkType ''large'' 3, mkType ''huge'' 5] {''on-demand''}], []) \<and>
     filterByPrice (InstanceTypeOptions (mkSchedNode [mkType ''large'' 3, mkType ''huge'' 5] {''on-demand''}))
       (Price (instanceType onDemandCandidate)) False = []"
    by (simp add: pricierEnv_def onDemandCandidate_def example_defs filterByPrice_def)
  have q: "result (nodeConsolidationActions pricierEnv onDemandCandidate) = consolidateResultNotPossible"
    using replace_savings [of pricierEnv onDemandCandidate
        "mkSchedNode [mkType ''large'' 3, mkType ''huge'' 5] {''on-demand''}" "[]"] n
    by blast
  show ?thesis using r p q by simp
qed

text \<open>
  With the options in another order the savings are not computed from the cheapest
  remaining option: for an old price of 3 and the options priced 2 and 1, in this order,
  the savings are 1 and not 2.
\<close>

theorem replace_savings_cheapest_counterexample:
  "result (nodeConsolidationActions unsortedEnv onDemandCandidate) = consolidateResultReplace \<and>
   savings (nodeConsolidationActions unsortedEnv onDemandCandidate) \<noteq>
     Price (instanceType onDemandCandidate) -
       Min (Price ` set (filterByPrice [mkType ''medium'' 2, mkType ''small'' 1]
              (Price (instanceType onDemandCandidate)) False))"
  unfolding unsorted_eval
  by (simp add: onDemandCandidate_def mkCandidate_def mkType_def filterByPrice_def)

text \<open>
  C4. When the simulation needs no new node and the pods placed on in-flight nodes are as
  many as the candidate's pods, the planner answers \<^verbatim>\<open>Delete\<close> with the old node's
  price as savings. In every other case where the number of new nodes is not exactly one
  (none, with some pod left over, or more than one) it answers \<^verbatim>\<open>NotPossible\<close>.
\<close>

theorem delete_or_not_possible:
  assumes "newScheduler e cand = None"
      and "solve e cand = Inr (newNodes, inflightNodes)"
  shows "(newNodes = [] \<and>
          length (pods cand) = sum_list (map (\<lambda>i. length (InflightPods i)) inflightNodes) \<longrightarrow>
            result (nodeConsolidationActions e cand) = consolidateResultDelete \<and>
            savings (nodeConsolidationActions e cand) = Price (instanceType cand) \<and>
            oldNodes (nodeConsolidationActions e cand) = [node cand]) \<and>
         (length newNodes \<noteq> 1 \<and>
          \<not> (newNodes = [] \<and>
             length (pods cand) = sum_list (map (\<lambda>i. length (InflightPods i)) inflightNodes)) \<longrightarrow>
            result (nodeConsolidationActions e cand) = consolidateResultNotPossible) \<and>
         (1 < length newNodes \<longrightarrow>
            result (nodeConsolidationActions e cand) = consolidateResultNotPossible)"
  using assms
  by (cases newNodes; cases "tl newNodes")
     (auto simp: nodeConsolidationActions_result nodeConsolidationActions_savings
        nodeConsolidationActions_oldNodes nodeConsolidationOptionReplaceOrDelete_def
        emptyAction_def Let_def)

theorem delete_or_not_possible_witness:
  "result (nodeConsolidationActions fitsEnv onDemandCandidate) = consolidateResultDelete \<and>
   savings (nodeConsolidationActions fitsEnv onDemandCandidate) = 3 \<and>
   result (nodeConsolidationActions fanOutEnv onDemandCandidate) = consolidateResultNotPossible \<and>
   result (nodeConsolidationActions quietEnv onDemandCandidate) = consolidateResultNotPossible"
proof -
  have a: "newScheduler fitsEnv onDemandCandidate = None"
          "solve fitsEnv onDemandCandidate =
             Inr ([], [\<lparr>InflightName = ''other'', InflightPods = [mkPod ''p'']\<rparr>])"
    by (simp_all add: fitsEnv_def quietEnv_def)
  have b: "newScheduler fanOutEnv onDemandCandidate = None"
          "solve fanOutEnv onDemandCandidate =
             Inr ([mkSchedNode [mkType ''small'' 1] {''on-demand''},
                   mkSchedNode [mkType ''small'' 1] {''on-demand''}], [])"
    by (simp_all add: fanOutEnv_def quietEnv_def)
  have c: "newScheduler quietEnv onDemandCandidate = None"
          "solve quietEnv onDemandCandidate = Inr ([], [])"
    by (simp_all add: quietEnv_def)
  show ?thesis
    using delete_or_not_possible [OF a] delete_or_not_possible [OF b]
      delete_or_not_possible [OF c]
    by (simp add: onDemandCandidate_def mkCandidate_def mkType_def)
qed

text \<open>
  C5. A candidate labelled with the spot capacity type whose simulated replacement also
  admits spot is answered with \<^verbatim>\<open>NotPossible\<close>, whatever the prices; the example has a
  strictly cheaper option and is refused all the same.
\<close>

theorem spot_to_spot_not_possible:
  assumes "newScheduler e cand = None"
      and "solve e cand = Inr (n0 # others, inflightNodes)"
      and "lookup (Labels (node cand)) LabelCapacityType = CapacityTypeSpot"
      and "CapacityTypeSpot \<in> Requirements n0 LabelCapacityType"
  shows "result (nodeConsolidationActions e cand) = consolidateResultNotPossible"
  using assms
  by (cases others)
     (auto simp: nodeConsolidationActions_result nodeConsolidationOptionReplaceOrDelete_def
        emptyAction_def Let_def split: list.splits)

theorem spot_to_spot_not_possible_witness:
  "filterByPrice [mkType ''small'' 1] (Price (instanceType spotCandidate)) False = [mkType ''small'' 1] \<and>
   result (nodeConsolidationActions spotEnv spotCandidate) = consolidateResultNotPossible"
proof -
  have a: "newScheduler spotEnv spotCandidate = None"
    by (simp add: spotEnv_def quietEnv_def)
  have b: "solve spotEnv spotCandidate =
             Inr (mkSchedNode [mkType ''small'' 1] {''spot'', ''on-demand''} # [], [])"
    by (simp add: spotEnv_def quietEnv_def)
  have c: "lookup (Labels (node spotCandidate)) LabelCapacityType = CapacityTypeSpot"
    by (simp add: spotCandidate_def mkCandidate_def mkNode_def lookup_def)
  have d: "CapacityTypeSpot \<in> Requirements (mkSchedNode [mkType ''small'' 1] {''spot'', ''on-demand''}) LabelCapacityType"
    by (simp add: mkSchedNode_def CapacityTypeSpot_def)
  show ?thesis
    using spot_to_spot_not_possible [OF a b c d]
    by (simp add: filterByPrice_def spotCandidate_def mkCandidate_def mkType_def)
qed

section \<open>Properties of the eviction gate\<close>

text \<open>
  C7. \<^verbatim>\<open>canBeTerminated\<close> rejects a candidate exactly when the node has a non-zero
  deletion timestamp, the PDB limits refuse its pods, or one of its pods that is neither
  terminating, terminal nor owned by the node carries do-not-evict or has no owner. Pods
  that are terminating, terminal or owned by the node make no difference to the pod
  checks. A rejected candidate is skipped without a trace: the loop behaves as if it were
  not in the list, and a tick that consolidates does so for a candidate the gate lets
  through.
\<close>

theorem gate_rejects_iff:
  "((canBeTerminated cand pdbs \<noteq> None) =
      (\<not> IsZero (DeletionTimestamp (node cand)) \<or> \<not> pdbs (pods cand) \<or>
       (\<exists>p \<in> set (pods cand).
          \<not> (IsTerminating p \<or> IsTerminal p \<or> IsOwnedByNode p) \<and>
          (HasDoNotEvict p \<or> IsNotOwned p)))) \<and>
   podsPreventEviction
      (cand\<lparr>pods := filter (\<lambda>p. \<not> (IsTerminating p \<or> IsTerminal p \<or> IsOwnedByNode p))
                        (pods cand)\<rparr>) = podsPreventEviction cand \<and>
   (canBeTerminated cand pdbs \<noteq> None \<longrightarrow>
      consolidateLoop e pdbs (before @ cand # after) t =
        consolidateLoop e pdbs (before @ after) t) \<and>
   (fst (fst (consolidateLoop e pdbs cs t)) = ProcessResultConsolidated \<longrightarrow>
      (\<exists>c \<in> set cs. canBeTerminated c pdbs = None \<and>
         snd (consolidateLoop e pdbs cs t) =
           performConsolidation e (nodeConsolidationActions e c) t))"
proof (intro conjI impI)
  show "(canBeTerminated cand pdbs \<noteq> None) =
      (\<not> IsZero (DeletionTimestamp (node cand)) \<or> \<not> pdbs (pods cand) \<or>
       (\<exists>p \<in> set (pods cand).
          \<not> (IsTerminating p \<or> IsTerminal p \<or> IsOwnedByNode p) \<and>
          (HasDoNotEvict p \<or> IsNotOwned p)))"
    using podsPreventEvictionLoop_iff [of "pods cand"]
    by (simp add: canBeTerminated_def podsPreventEviction_def)
next
  show "podsPreventEviction
      (cand\<lparr>pods := filter (\<lambda>p. \<not> (IsTerminating p \<or> IsTerminal p \<or> IsOwnedByNode p))
                        (pods cand)\<rparr>) = podsPreventEviction cand"
    using podsPreventEvictionLoop_ignores [of "pods cand"]
    by (simp add: podsPreventEviction_def)
next
  assume "canBeTerminated cand pdbs \<noteq> None"
  then have "\<not> selectable e pdbs cand"
    by (simp add: selectable_def)
  then show "consolidateLoop e pdbs (before @ cand # after) t =
        consolidateLoop e pdbs (before @ after) t"
    by (simp add: consolidateLoop_find find_skip)
next
  assume c: "fst (fst (consolidateLoop e pdbs cs t)) = ProcessResultConsolidated"
  then obtain c where f: "find (selectable e pdbs) cs = Some c"
    by (cases "find (selectable e pdbs) cs") (simp_all add: consolidateLoop_find)
  then have "c \<in> set cs" and "selectable e pdbs c"
    by (auto simp: find_Some_iff)
  then show "\<exists>c \<in> set cs. canBeTerminated c pdbs = None \<and>
         snd (consolidateLoop e pdbs cs t) =
           performConsolidation e (nodeConsolidationActions e c) t"
    using f by (auto simp: consolidateLoop_find selectable_def)
qed

theorem gate_rejects_iff_witness:
  "canBeTerminated pinnedCandidate (\<lambda>ps. True) \<noteq> None \<and>
   canBeTerminated finishingCandidate (\<lambda>ps. True) = None \<and>
   canBeTerminated onDemandCandidate (\<lambda>ps. True) = None \<and>
   consolidateLoop fitsEnv (\<lambda>ps. True) [pinnedCandidate, onDemandCandidate] [] =
     ((ProcessResultConsolidated, None),
      [Recorded (TerminatingNodeForConsolidation (mkNode ''old'' [])), KubeDelete ''old'' None])"
proof -
  have g: "\<not> IsZero (DeletionTimestamp (node pinnedCandidate)) \<or> \<not> (\<lambda>ps. True) (pods pinnedCandidate) \<or>
       (\<exists>p \<in> set (pods pinnedCandidate).
          \<not> (IsTerminating p \<or> IsTerminal p \<or> IsOwnedByNode p) \<and>
          (HasDoNotEvict p \<or> IsNotOwned p))"
    by (simp add: pinnedCandidate_def mkCandidate_def mkPod_def)
  have r: "canBeTerminated pinnedCandidate (\<lambda>ps. True) \<noteq> None"
    using gate_rejects_iff [of pinnedCandidate "\<lambda>ps. True"] g by blast
  have n: "\<not> (\<not> IsZero (DeletionTimestamp (node finishingCandidate)) \<or> \<not> (\<lambda>ps. True) (pods finishingCandidate) \<or>
       (\<exists>p \<in> set (pods finishingCandidate).
          \<not> (IsTerminating p \<or> IsTerminal p \<or> IsOwnedByNode p) \<and>
          (HasDoNotEvict p \<or> IsNotOwned p)))"
    by (simp add: finishingCandidate_def mkCandidate_def mkPod_def mkNode_def IsZero_def)
  have a: "canBeTerminated finishingCandidate (\<lambda>ps. True) = None"
    using gate_rejects_iff [of finishingCandidate "\<lambda>ps. True"] n by blast
  have s: "consolidateLoop fitsEnv (\<lambda>ps. True) ([] @ pinnedCandidate # [onDemandCandidate]) [] =
        consolidateLoop fitsEnv (\<lambda>ps. True) ([] @ [onDemandCandidate]) []"
    using gate_rejects_iff [of pinnedCandidate "\<lambda>ps. True" fitsEnv "[]" "[onDemandCandidate]" "[]"] r
    by blast
  have o: "canBeTerminated onDemandCandidate (\<lambda>ps. True) = None"
    by (simp add: canBeTerminated_def podsPreventEviction_def onDemandCandidate_def
        mkCandidate_def mkNode_def mkPod_def IsZero_def)
  have "consolidateLoop fitsEnv (\<lambda>ps. True) [onDemandCandidate] [] =
     ((ProcessResultConsolidated, None),
      [Recorded (TerminatingNodeForConsolidation (mkNode ''old'' [])), KubeDelete ''old'' None])"
    by (simp add: o fits_delete fits_delete_trace)
  then have l: "consolidateLoop fitsEnv (\<lambda>ps. True) [pinnedCandidate, onDemandCandidate] [] =
     ((ProcessResultConsolidated, None),
      [Recorded (TerminatingNodeForConsolidation (mkNode ''old'' [])), KubeDelete ''old'' None])"
    using s by simp
  then have "fst (fst (consolidateLoop fitsEnv (\<lambda>ps. True) [pinnedCandidate, onDemandCandidate] [])) =
      ProcessResultConsolidated"
    by simp
  then obtain c where "c \<in> set [pinnedCandidate, onDemandCandidate]"
      and "canBeTerminated c (\<lambda>ps. True) = None"
    using gate_rejects_iff [of pinnedCandidate "\<lambda>ps. True" fitsEnv "[]" "[]" "[]"
        "[pinnedCandidate, onDemandCandidate]"]
    by blast
  then have "canBeTerminated onDemandCandidate (\<lambda>ps. True) = None"
    using r by auto
  then show ?thesis using r a l by simp
qed

section \<open>The stabilization window\<close>

text \<open>
  C8. The window is meant to be five minutes whenever one of the list calls fails, and the
  comment in \<^verbatim>\<open>replicaSetsReady\<close> says so ("assume there must be one non-ready"), but
  the function answers \<^verbatim>\<open>true\<close> there: when listing ReplicaSets fails and nothing else
  is pending or unready, \<^verbatim>\<open>stabilizationWindow\<close> is 0 and not five minutes.
\<close>

theorem stabilizationWindow_list_failure:
  "stabilizationWindow rsListFails = 0 \<and> stabilizationWindow rsListFails \<noteq> 5 * Minute"
  by (simp add: stabilizationWindow_def hasPendingPods_def replicaSetsReady_def
      replicationControllersReady_def statefulSetsReady_def rsListFails_def Minute_def)

section \<open>Properties of the action executor\<close>

text \<open>
  C1. When \<^verbatim>\<open>performConsolidation\<close> runs a \<^verbatim>\<open>Replace\<close> action, every delete it issues
  comes after the launch of the replacement and after a get of the launched node that
  showed the initialized label. When \<^verbatim>\<open>launchReplacementNode\<close> returns an error no
  delete is issued at all; this is the case when \<^verbatim>\<open>LaunchNodes\<close> fails and when all
  thirty polls of the readiness wait fail.
\<close>

theorem replace_deletes_after_initialized:
  assumes "result action = consolidateResultReplace"
  shows "performConsolidation e action t =
           t @ drop (length t) (performConsolidation e action t) \<and>
         (drop (length t) (performConsolidation e action t) =
            before @ KubeDelete nodeName r # after \<longrightarrow>
            (\<exists>b1 newName b2. before = b1 @ LaunchNodes (Inr [newName]) # b2 \<and>
               list_ex (observedInitialized newName) b2)) \<and>
         (fst (launchReplacementNode e action t) \<noteq> None \<longrightarrow>
            \<not> list_ex isDelete (drop (length t) (performConsolidation e action t))) \<and>
         (oldNodes action = [old] \<and>
          setNodeUnschedulable e (Name old) True t = (None, t1) \<and>
          launchNodes e t1 (replacementNode action) = Inl err \<longrightarrow>
            \<not> list_ex isDelete (drop (length t) (performConsolidation e action t))) \<and>
         (oldNodes action = [old] \<and>
          setNodeUnschedulable e (Name old) True t = (None, t1) \<and>
          launchNodes e t1 (replacementNode action) = Inr [newName] \<and>
          fst (retryDo (pollInitialized e newName) (retryAttempts - 1)
                 (t1 @ [LaunchNodes (Inr [newName])], False)) \<noteq> None \<longrightarrow>
            \<not> list_ex isDelete (drop (length t) (performConsolidation e action t)))"
proof (intro conjI impI)
  show "performConsolidation e action t =
           t @ drop (length t) (performConsolidation e action t)"
    using performConsolidation_extends [of e action t] by auto
next
  assume d: "drop (length t) (performConsolidation e action t) =
            before @ KubeDelete nodeName r # after"
  obtain lr t2 where l: "launchReplacementNode e action t = (lr, t2)" by (metis prod.exhaust)
  from launchReplacementNode_events [OF l] obtain es1 where
    es1: "t2 = t @ es1" "\<not> list_ex isDelete es1"
         "lr = None \<longrightarrow> (\<exists>b1 newName b2. es1 = b1 @ LaunchNodes (Inr [newName]) # b2 \<and>
                 list_ex (observedInitialized newName) b2)"
    by blast
  show "\<exists>b1 newName b2. before = b1 @ LaunchNodes (Inr [newName]) # b2 \<and>
               list_ex (observedInitialized newName) b2"
  proof (cases lr)
    case (Some x)
    then have "\<not> list_ex isDelete (drop (length t) (performConsolidation e action t))"
      using replace_failed_no_delete [OF assms, of e t] l by simp
    with d show ?thesis by simp
  next
    case None
    from deleteOldNodes_events [of e "oldNodes action" t2] obtain es2 where
      es2: "deleteOldNodes e (oldNodes action) t2 = t2 @ es2" by blast
    with assms l None es1 have "drop (length t) (performConsolidation e action t) = es1 @ es2"
      by (simp add: performConsolidation_def)
    with d have "es1 @ es2 = before @ KubeDelete nodeName r # after" by simp
    moreover have "KubeDelete nodeName r \<notin> set es1"
      using es1(2) by (auto simp: list_ex_iff)
    ultimately have "\<exists>d. before = es1 @ d"
      by (rule append_split_after)
    then obtain dd where dd: "before = es1 @ dd" ..
    from es1(3) None obtain b1 newName b2 where
      "es1 = b1 @ LaunchNodes (Inr [newName]) # b2" "list_ex (observedInitialized newName) b2"
      by blast
    with dd show ?thesis
      by (intro exI [of _ b1] exI [of _ newName] exI [of _ "b2 @ dd"]) simp
  qed
next
  assume "fst (launchReplacementNode e action t) \<noteq> None"
  then show "\<not> list_ex isDelete (drop (length t) (performConsolidation e action t))"
    using replace_failed_no_delete [OF assms] by blast
next
  assume "oldNodes action = [old] \<and>
          setNodeUnschedulable e (Name old) True t = (None, t1) \<and>
          launchNodes e t1 (replacementNode action) = Inl err"
  then have "fst (launchReplacementNode e action t) \<noteq> None"
    by (simp add: launchReplacementNode_def)
  then show "\<not> list_ex isDelete (drop (length t) (performConsolidation e action t))"
    using replace_failed_no_delete [OF assms] by blast
next
  assume "oldNodes action = [old] \<and>
          setNodeUnschedulable e (Name old) True t = (None, t1) \<and>
          launchNodes e t1 (replacementNode action) = Inr [newName] \<and>
          fst (retryDo (pollInitialized e newName) (retryAttempts - 1)
                 (t1 @ [LaunchNodes (Inr [newName])], False)) \<noteq> None"
  then have "fst (launchReplacementNode e action t) \<noteq> None"
    using launch_fails_on_exhaustion [of action old e t t1 newName] by blast
  then show "\<not> list_ex isDelete (drop (length t) (performConsolidation e action t))"
    using replace_failed_no_delete [OF assms] by blast
qed

theorem replace_deletes_after_initialized_witness:
  "performConsolidation (replacingEnv 4 [(LabelNodeInitialized, ''true'')]) replaceAction [] =
     [KubeGet ''old'' (Inr oldNode), KubePatch ''old'' True None, LaunchNodes (Inr [''new'']),
      KubeGet ''new'' (Inr (mkNode ''new'' [])),
      Recorded (LaunchingNodeForConsolidation (mkNode ''new'' [])),
      Recorded (WaitingOnReadinessForConsolidation (mkNode ''new'' [])),
      KubeGet ''new'' (Inr (mkNode ''new'' [(LabelNodeInitialized, ''true'')])),
      Recorded (TerminatingNodeForConsolidation oldNode), KubeDelete ''old'' None] \<and>
   (\<exists>b1 newName b2.
      [KubeGet ''old'' (Inr oldNode), KubePatch ''old'' True None, LaunchNodes (Inr [''new'']),
       KubeGet ''new'' (Inr (mkNode ''new'' [])),
       Recorded (LaunchingNodeForConsolidation (mkNode ''new'' [])),
       Recorded (WaitingOnReadinessForConsolidation (mkNode ''new'' [])),
       KubeGet ''new'' (Inr (mkNode ''new'' [(LabelNodeInitialized, ''true'')])),
       Recorded (TerminatingNodeForConsolidation oldNode)] =
        b1 @ LaunchNodes (Inr [newName]) # b2 \<and>
      list_ex (observedInitialized newName) b2) \<and>
   \<not> list_ex isDelete (performConsolidation launchFailEnv replaceAction []) \<and>
   \<not> list_ex isDelete (performConsolidation (replacingEnv 0 []) replaceAction [])"
proof -
  have r: "result replaceAction = consolidateResultReplace"
    by (simp add: replaceAction_def)
  have o: "oldNodes replaceAction = [oldNode]"
    by (simp add: replaceAction_def)
  note tr = replacing_trace
  have d: "drop (length ([]::trace))
             (performConsolidation (replacingEnv 4 [(LabelNodeInitialized, ''true'')])
                replaceAction []) =
           [KubeGet ''old'' (Inr oldNode), KubePatch ''old'' True None,
            LaunchNodes (Inr [''new'']),
            KubeGet ''new'' (Inr (mkNode ''new'' [])),
            Recorded (LaunchingNodeForConsolidation (mkNode ''new'' [])),
            Recorded (WaitingOnReadinessForConsolidation (mkNode ''new'' [])),
            KubeGet ''new'' (Inr (mkNode ''new'' [(LabelNodeInitialized, ''true'')])),
            Recorded (TerminatingNodeForConsolidation oldNode)] @ KubeDelete ''old'' None # []"
    by (simp add: tr)
  have p2: "\<exists>b1 newName b2.
      [KubeGet ''old'' (Inr oldNode), KubePatch ''old'' True None, LaunchNodes (Inr [''new'']),
       KubeGet ''new'' (Inr (mkNode ''new'' [])),
       Recorded (LaunchingNodeForConsolidation (mkNode ''new'' [])),
       Recorded (WaitingOnReadinessForConsolidation (mkNode ''new'' [])),
       KubeGet ''new'' (Inr (mkNode ''new'' [(LabelNodeInitialized, ''true'')])),
       Recorded (TerminatingNodeForConsolidation oldNode)] =
        b1 @ LaunchNodes (Inr [newName]) # b2 \<and>
      list_ex (observedInitialized newName) b2"
    using replace_deletes_after_initialized [OF r,
        of "replacingEnv 4 [(LabelNodeInitialized, ''true'')]" "[]" _ "''old''" None "[]"] d
    by blast
  have lf: "launchNodes launchFailEnv [KubeGet ''old'' (Inr oldNode), KubePatch ''old'' True None]
              (replacementNode replaceAction) = Inl ''insufficient capacity''"
    by (simp add: launchFailEnv_def replacingEnv_def quietEnv_def)
  have p4: "\<not> list_ex isDelete (performConsolidation launchFailEnv replaceAction [])"
    using replace_deletes_after_initialized [OF r, of launchFailEnv "[]" _ _ _ _ oldNode
        "[KubeGet ''old'' (Inr oldNode), KubePatch ''old'' True None]" "''insufficient capacity''"]
      o launchFail_cordon lf
    by simp
  have ln: "launchNodes (replacingEnv 0 []) [KubeGet ''old'' (Inr oldNode), KubePatch ''old'' True None]
              (replacementNode replaceAction) = Inr [''new'']"
    by (simp add: replacingEnv_def quietEnv_def)
  have nr: "\<And>t'. case kubeGet (replacingEnv 0 []) t' ''new'' of Inl err \<Rightarrow> True
                 | Inr k \<Rightarrow> map_of (Labels k) LabelNodeInitialized = None"
    by (simp add: replacingEnv_def quietEnv_def mkNode_def)
  have ex: "fst (retryDo (pollInitialized (replacingEnv 0 []) ''new'') (retryAttempts - 1)
                 ([KubeGet ''old'' (Inr oldNode), KubePatch ''old'' True None] @
                  [LaunchNodes (Inr [''new''])], False)) \<noteq> None"
    using nr by (rule poll_never_ready)
  have p5: "\<not> list_ex isDelete (performConsolidation (replacingEnv 0 []) replaceAction [])"
    using replace_deletes_after_initialized [OF r, of "replacingEnv 0 []" "[]" _ _ _ _ oldNode
        "[KubeGet ''old'' (Inr oldNode), KubePatch ''old'' True None]" _ "''new''"]
      o replacing_cordon [of 0 "[]"] ln ex
    by simp
  show ?thesis using tr p2 p4 p5 by blast
qed

text \<open>
  C10. A poll of the readiness wait succeeds exactly when the get returns the node and the
  node carries the key of the initialized label, whatever its value. \<^verbatim>\<open>retry.Do\<close> ends
  with the first attempt that succeeds, if there is one among its attempts, and with the
  last attempt's error otherwise. So when attempt \<open>k\<close> of the thirty is the first to show
  the key, with any value \<open>v\<close>, the old node is deleted right after it; when none of
  the thirty shows it, nothing is deleted. Candidate selection asks for the value
  \<^verbatim>\<open>"true"\<close>: the same node, with another value and otherwise eligible, raises
  \<^verbatim>\<open>uninitializedNodeExists\<close> there. In the example the value is \<^verbatim>\<open>"false"\<close> and shows
  at the second poll.
\<close>

theorem wait_accepts_any_label_value:
  "((fst (pollInitialized e nodeName (tp, oncep)) = None) =
      (\<exists>shown value. kubeGet e tp nodeName = Inr shown \<and>
         map_of (Labels shown) LabelNodeInitialized = Some value)) \<and>
   (k \<le> m \<and> (\<forall>j<k. fst (f (attemptState f j s)) \<noteq> None) \<and>
    fst (f (attemptState f k s)) = None \<longrightarrow>
      retryDo f m s = f (attemptState f k s)) \<and>
   ((\<forall>j\<le>m. fst (f (attemptState f j s)) \<noteq> None) \<longrightarrow>
      retryDo f m s = f (attemptState f m s)) \<and>
   (result action = consolidateResultReplace \<and> oldNodes action = [old] \<and>
    setNodeUnschedulable e (Name old) True t = (None, t1) \<and>
    launchNodes e t1 (replacementNode action) = Inr [newName] \<and>
    k < retryAttempts \<and>
    (\<forall>j<k. fst (pollInitialized e newName
               (attemptState (pollInitialized e newName) j
                  (t1 @ [LaunchNodes (Inr [newName])], False))) \<noteq> None) \<and>
    attemptState (pollInitialized e newName) k (t1 @ [LaunchNodes (Inr [newName])], False) =
      (tk, oncek) \<and>
    kubeGet e tk newName = Inr k8Node \<and>
    map_of (Labels k8Node) LabelNodeInitialized = Some v \<longrightarrow>
      performConsolidation e action t =
        deleteOldNodes e [old]
          (tk @ KubeGet newName (Inr k8Node) #
             (if oncek then [] else [Recorded (LaunchingNodeForConsolidation k8Node)]))) \<and>
   deleteOldNodes e [old] tw =
     tw @ [Recorded (TerminatingNodeForConsolidation old),
           KubeDelete (Name old)
             (kubeDelete e (tw @ [Recorded (TerminatingNodeForConsolidation old)]) old)] \<and>
   (result action = consolidateResultReplace \<and> oldNodes action = [old] \<and>
    setNodeUnschedulable e (Name old) True t = (None, t1) \<and>
    launchNodes e t1 (replacementNode action) = Inr [newName] \<and>
    (\<forall>j<retryAttempts. fst (pollInitialized e newName
               (attemptState (pollInitialized e newName) j
                  (t1 @ [LaunchNodes (Inr [newName])], False))) \<noteq> None) \<longrightarrow>
      \<not> list_ex isDelete (drop (length t) (performConsolidation e action t))) \<and>
   (v \<noteq> ''true'' \<and> map_of (Labels k8Node) LabelNodeInitialized = Some v \<and>
    consolidatable provisioners instanceTypesByProvisioner k8Node \<longrightarrow>
      fst (snd (visitNode e' provisioners instanceTypesByProvisioner k8Node
                  (nodes, False, t0))))"
proof (intro conjI impI)
  show "(fst (pollInitialized e nodeName (tp, oncep)) = None) =
      (\<exists>shown value. kubeGet e tp nodeName = Inr shown \<and>
         map_of (Labels shown) LabelNodeInitialized = Some value)"
    by (rule poll_succeeds_iff)
next
  assume "k \<le> m \<and> (\<forall>j<k. fst (f (attemptState f j s)) \<noteq> None) \<and>
    fst (f (attemptState f k s)) = None"
  then show "retryDo f m s = f (attemptState f k s)"
    using retryDo_first_success_at [of k m f s] by blast
next
  assume "\<forall>j\<le>m. fst (f (attemptState f j s)) \<noteq> None"
  then show "retryDo f m s = f (attemptState f m s)"
    by (rule retryDo_exhausted)
next
  let ?poll = "pollInitialized e newName"
  let ?s0 = "(t1 @ [LaunchNodes (Inr [newName])], False)"
  assume a: "result action = consolidateResultReplace \<and> oldNodes action = [old] \<and>
    setNodeUnschedulable e (Name old) True t = (None, t1) \<and>
    launchNodes e t1 (replacementNode action) = Inr [newName] \<and>
    k < retryAttempts \<and>
    (\<forall>j<k. fst (?poll (attemptState ?poll j ?s0)) \<noteq> None) \<and>
    attemptState ?poll k ?s0 = (tk, oncek) \<and>
    kubeGet e tk newName = Inr k8Node \<and>
    map_of (Labels k8Node) LabelNodeInitialized = Some v"
  then have ps: "?poll (attemptState ?poll k ?s0) =
           (None, (tk @ KubeGet newName (Inr k8Node) #
                     (if oncek then [] else [Recorded (LaunchingNodeForConsolidation k8Node)]),
                   True))"
    using poll_success_state [of e tk newName k8Node v oncek] by simp
  from a have "k < retryAttempts" by blast
  then have km: "k \<le> retryAttempts - 1" by arith
  have "retryDo ?poll (retryAttempts - 1) ?s0 = ?poll (attemptState ?poll k ?s0)"
    using retryDo_first_success_at [of k "retryAttempts - 1" ?poll ?s0] km a ps by simp
  with ps have "retryDo ?poll (retryAttempts - 1) ?s0 =
           (None, (tk @ KubeGet newName (Inr k8Node) #
                     (if oncek then [] else [Recorded (LaunchingNodeForConsolidation k8Node)]),
                   True))"
    by simp
  then show "performConsolidation e action t =
        deleteOldNodes e [old]
          (tk @ KubeGet newName (Inr k8Node) #
             (if oncek then [] else [Recorded (LaunchingNodeForConsolidation k8Node)]))"
    using replace_after_wait [of action old e t t1 newName] a by blast
next
  show "deleteOldNodes e [old] tw =
     tw @ [Recorded (TerminatingNodeForConsolidation old),
           KubeDelete (Name old)
             (kubeDelete e (tw @ [Recorded (TerminatingNodeForConsolidation old)]) old)]"
    by (rule deleteOldNodes_single)
next
  let ?poll = "pollInitialized e newName"
  let ?s0 = "(t1 @ [LaunchNodes (Inr [newName])], False)"
  assume a: "result action = consolidateResultReplace \<and> oldNodes action = [old] \<and>
    setNodeUnschedulable e (Name old) True t = (None, t1) \<and>
    launchNodes e t1 (replacementNode action) = Inr [newName] \<and>
    (\<forall>j<retryAttempts. fst (?poll (attemptState ?poll j ?s0)) \<noteq> None)"
  have "0 < retryAttempts" by (simp add: retryAttempts_def)
  with a have all: "\<forall>j\<le>retryAttempts - 1. fst (?poll (attemptState ?poll j ?s0)) \<noteq> None"
    by auto
  then have "retryDo ?poll (retryAttempts - 1) ?s0 =
               ?poll (attemptState ?poll (retryAttempts - 1) ?s0)"
    by (rule retryDo_exhausted)
  with all have "fst (retryDo ?poll (retryAttempts - 1) ?s0) \<noteq> None" by simp
  then have "fst (launchReplacementNode e action t) \<noteq> None"
    using launch_fails_on_exhaustion [of action old e t t1 newName] a by blast
  then show "\<not> list_ex isDelete (drop (length t) (performConsolidation e action t))"
    using replace_failed_no_delete [of action e t] a by blast
next
  assume a: "v \<noteq> ''true'' \<and> map_of (Labels k8Node) LabelNodeInitialized = Some v \<and>
    consolidatable provisioners instanceTypesByProvisioner k8Node"
  then have "lookup (Labels k8Node) LabelNodeInitialized \<noteq> ''true''"
    by (simp add: lookup_def)
  with a obtain nodes' t' where
    "visitNode e' provisioners instanceTypesByProvisioner k8Node (nodes, False, t0) =
       (nodes', True, t')"
    using visitNode_sets_flag [of provisioners instanceTypesByProvisioner k8Node e' nodes False t0]
    by blast
  then show "fst (snd (visitNode e' provisioners instanceTypesByProvisioner k8Node
                  (nodes, False, t0)))"
    by simp
qed

theorem wait_accepts_any_label_value_witness:
  "lookup (Labels (mkNode ''new'' falseLabels)) LabelNodeInitialized = ''false'' \<and>
   fst (pollInitialized lateLabelEnv ''new''
          ([KubeGet ''old'' (Inr oldNode), KubePatch ''old'' True None,
            LaunchNodes (Inr [''new''])], False)) \<noteq> None \<and>
   retryDo (pollInitialized lateLabelEnv ''new'') (retryAttempts - 1)
     ([KubeGet ''old'' (Inr oldNode), KubePatch ''old'' True None, LaunchNodes (Inr [''new''])],
      False) =
   (None,
    ([KubeGet ''old'' (Inr oldNode), KubePatch ''old'' True None, LaunchNodes (Inr [''new'']),
      KubeGet ''new'' (Inr (mkNode ''new'' [])),
      Recorded (LaunchingNodeForConsolidation (mkNode ''new'' [])),
      Recorded (WaitingOnReadinessForConsolidation (mkNode ''new'' [])),
      KubeGet ''new'' (Inr (mkNode ''new'' falseLabels))], True)) \<and>
   performConsolidation lateLabelEnv replaceAction [] =
     [KubeGet ''old'' (Inr oldNode), KubePatch ''old'' True None, LaunchNodes (Inr [''new'']),
      KubeGet ''new'' (Inr (mkNode ''new'' [])),
      Recorded (LaunchingNodeForConsolidation (mkNode ''new'' [])),
      Recorded (WaitingOnReadinessForConsolidation (mkNode ''new'' [])),
      KubeGet ''new'' (Inr (mkNode ''new'' falseLabels)),
      Recorded (TerminatingNodeForConsolidation oldNode), KubeDelete ''old'' None] \<and>
   fst (retryDo (pollInitialized neverReadyEnv ''new'') (retryAttempts - 1)
          ([KubeGet ''old'' (Inr oldNode), KubePatch ''old'' True None,
            LaunchNodes (Inr [''new''])], False)) \<noteq> None \<and>
   \<not> list_ex isDelete (performConsolidation neverReadyEnv replaceAction []) \<and>
   fst (snd (visitNode quietEnv defaultProvisioners defaultInstanceTypes
               (mkNode ''new'' falseLabels) ([], False, [])))"
proof -
  let ?t1 = "[KubeGet ''old'' (Inr oldNode), KubePatch ''old'' True None]"
  let ?s0 = "([KubeGet ''old'' (Inr oldNode), KubePatch ''old'' True None,
               LaunchNodes (Inr [''new''])], False)"
  let ?tk = "[KubeGet ''old'' (Inr oldNode), KubePatch ''old'' True None,
              LaunchNodes (Inr [''new'']),
              KubeGet ''new'' (Inr (mkNode ''new'' [])),
              Recorded (LaunchingNodeForConsolidation (mkNode ''new'' [])),
              Recorded (WaitingOnReadinessForConsolidation (mkNode ''new'' []))]"
  let ?tw = "[KubeGet ''old'' (Inr oldNode), KubePatch ''old'' True None,
              LaunchNodes (Inr [''new'']),
              KubeGet ''new'' (Inr (mkNode ''new'' [])),
              Recorded (LaunchingNodeForConsolidation (mkNode ''new'' [])),
              Recorded (WaitingOnReadinessForConsolidation (mkNode ''new'' [])),
              KubeGet ''new'' (Inr (mkNode ''new'' falseLabels))]"
  let ?poll = "pollInitialized lateLabelEnv ''new''"
  let ?never = "pollInitialized neverReadyEnv ''new''"
  have r: "result replaceAction = consolidateResultReplace"
    by (simp add: replaceAction_def)
  have o: "oldNodes replaceAction = [oldNode]"
    by (simp add: replaceAction_def)
  have c: "setNodeUnschedulable lateLabelEnv (Name oldNode) True [] = (None, ?t1)"
    by (simp add: lateLabelEnv_def replacing_cordon)
  have ln: "launchNodes lateLabelEnv ?t1 (replacementNode replaceAction) = Inr [''new'']"
    by (simp add: lateLabelEnv_def replacingEnv_def quietEnv_def)
  have k: "(1::nat) < retryAttempts"
    by (simp add: retryAttempts_def)
  have k29: "(1::nat) \<le> retryAttempts - 1"
    by (simp add: retryAttempts_def)
  have lv: "lookup (Labels (mkNode ''new'' falseLabels)) LabelNodeInitialized = ''false''"
    using falseLabels_value by (simp add: lookup_def)
  have p0: "fst (?poll ?s0) \<noteq> None"
    by (simp add: lateLabel_first_poll)
  have before: "\<forall>j<(1::nat). fst (?poll (attemptState ?poll j ?s0)) \<noteq> None"
    by (simp add: lateLabel_first_poll)
  have at: "attemptState ?poll 1 ?s0 = (?tk, True)"
    by (simp add: lateLabel_first_poll)
  have pk: "fst (?poll (?tk, True)) = None"
    using wait_accepts_any_label_value
        [where e = lateLabelEnv and nodeName = "''new''" and tp = ?tk and oncep = True,
        THEN conjunct1]
    by (simp add: lateLabel_second_get falseLabels_value)
  have first: "fst (?poll (attemptState ?poll 1 ?s0)) = None"
    unfolding at by (rule pk)
  have "retryDo ?poll (retryAttempts - 1) ?s0 = ?poll (attemptState ?poll 1 ?s0)"
    using wait_accepts_any_label_value
        [where k = 1 and m = "retryAttempts - 1" and f = ?poll and s = ?s0,
        THEN conjunct2, THEN conjunct1]
      k29 before first
    by blast
  then have "retryDo ?poll (retryAttempts - 1) ?s0 = ?poll (?tk, True)"
    by (simp only: at)
  moreover have "?poll (?tk, True) = (None, (?tw, True))"
    using poll_success_state [OF lateLabel_second_get falseLabels_value, of True]
    by simp
  ultimately have rd: "retryDo ?poll (retryAttempts - 1) ?s0 = (None, (?tw, True))"
    by simp
  have kd: "kubeDelete lateLabelEnv tt oldNode = None" for tt
    by (simp add: lateLabelEnv_def replacingEnv_def quietEnv_def)
  have on: "Name oldNode = ''old''"
    by (simp add: oldNode_def mkNode_def)
  have hyp: "result replaceAction = consolidateResultReplace \<and> oldNodes replaceAction = [oldNode] \<and>
    setNodeUnschedulable lateLabelEnv (Name oldNode) True [] = (None, ?t1) \<and>
    launchNodes lateLabelEnv ?t1 (replacementNode replaceAction) = Inr [''new''] \<and>
    1 < retryAttempts \<and>
    (\<forall>j<1. fst (?poll (attemptState ?poll j (?t1 @ [LaunchNodes (Inr [''new''])], False))) \<noteq>
            None) \<and>
    attemptState ?poll 1 (?t1 @ [LaunchNodes (Inr [''new''])], False) = (?tk, True) \<and>
    kubeGet lateLabelEnv ?tk ''new'' = Inr (mkNode ''new'' falseLabels) \<and>
    map_of (Labels (mkNode ''new'' falseLabels)) LabelNodeInitialized = Some ''false''"
    using r o c ln k before at lateLabel_second_get falseLabels_value by simp
  have "performConsolidation lateLabelEnv replaceAction [] =
          deleteOldNodes lateLabelEnv [oldNode]
            (?tk @ KubeGet ''new'' (Inr (mkNode ''new'' falseLabels)) #
               (if True then []
                else [Recorded (LaunchingNodeForConsolidation (mkNode ''new'' falseLabels))]))"
    using wait_accepts_any_label_value
        [where e = lateLabelEnv and k = 1 and action = replaceAction
           and old = oldNode and t = "[]" and ?t1.0 = ?t1 and newName = "''new''"
           and tk = ?tk and oncek = True and k8Node = "mkNode ''new'' falseLabels"
           and v = "''false''",
        THEN conjunct2, THEN conjunct2, THEN conjunct2, THEN conjunct1] hyp
    by (rule mp)
  then have "performConsolidation lateLabelEnv replaceAction [] =
          deleteOldNodes lateLabelEnv [oldNode] ?tw"
    by simp
  then have pc: "performConsolidation lateLabelEnv replaceAction [] =
     ?tw @ [Recorded (TerminatingNodeForConsolidation oldNode), KubeDelete ''old'' None]"
    using wait_accepts_any_label_value
        [where e = lateLabelEnv and old = oldNode and tw = ?tw,
        THEN conjunct2, THEN conjunct2, THEN conjunct2, THEN conjunct2, THEN conjunct1]
    by (simp add: kd on)
  have nv: "fst (?never (tp, oncep)) \<noteq> None" for tp oncep
    using wait_accepts_any_label_value
        [where e = neverReadyEnv and nodeName = "''new''" and tp = tp
        and oncep = oncep,
        THEN conjunct1]
    by (simp add: neverReadyEnv_def replacingEnv_def quietEnv_def mkNode_def)
  have nall: "fst (?never st) \<noteq> None" for st
    using nv [of "fst st" "snd st"] by simp
  have ex: "\<forall>j\<le>retryAttempts - 1. fst (?never (attemptState ?never j ?s0)) \<noteq> None"
    using nall by blast
  have "retryDo ?never (retryAttempts - 1) ?s0 =
          ?never (attemptState ?never (retryAttempts - 1) ?s0)"
    using wait_accepts_any_label_value
        [where m = "retryAttempts - 1" and f = ?never and s = ?s0,
        THEN conjunct2, THEN conjunct2, THEN conjunct1] ex
    by (rule mp)
  then have nr: "fst (retryDo ?never (retryAttempts - 1) ?s0) \<noteq> None"
    using nall by simp
  have nc: "setNodeUnschedulable neverReadyEnv (Name oldNode) True [] = (None, ?t1)"
    by (simp add: neverReadyEnv_def replacing_cordon)
  have nl: "launchNodes neverReadyEnv ?t1 (replacementNode replaceAction) = Inr [''new'']"
    by (simp add: neverReadyEnv_def replacingEnv_def quietEnv_def)
  have nhyp: "result replaceAction = consolidateResultReplace \<and>
    oldNodes replaceAction = [oldNode] \<and>
    setNodeUnschedulable neverReadyEnv (Name oldNode) True [] = (None, ?t1) \<and>
    launchNodes neverReadyEnv ?t1 (replacementNode replaceAction) = Inr [''new''] \<and>
    (\<forall>j<retryAttempts.
        fst (?never (attemptState ?never j (?t1 @ [LaunchNodes (Inr [''new''])], False))) \<noteq>
        None)"
    using r o nc nl nall by blast
  have "\<not> list_ex isDelete
          (drop (length ([]::trace)) (performConsolidation neverReadyEnv replaceAction []))"
    using wait_accepts_any_label_value
        [where e = neverReadyEnv and action = replaceAction and old = oldNode
        and t = "[]" and ?t1.0 = ?t1 and newName = "''new''",
        THEN conjunct2, THEN conjunct2, THEN conjunct2, THEN conjunct2, THEN conjunct2,
        THEN conjunct1] nhyp
    by (rule mp)
  then have nd: "\<not> list_ex isDelete (performConsolidation neverReadyEnv replaceAction [])"
    by simp
  have cs: "''false'' \<noteq> ''true'' \<and>
            map_of (Labels (mkNode ''new'' falseLabels)) LabelNodeInitialized = Some ''false'' \<and>
            consolidatable defaultProvisioners defaultInstanceTypes (mkNode ''new'' falseLabels)"
    using falseLabels_value
    by (simp add: consolidatable_def defaultProvisioners_def defaultInstanceTypes_def
        falseLabels_def example_defs lookup_def BoolValue_def ProvisionerNameLabelKey_def
        LabelInstanceTypeStable_def)
  have vs: "fst (snd (visitNode quietEnv defaultProvisioners defaultInstanceTypes
               (mkNode ''new'' falseLabels) ([], False, [])))"
    using wait_accepts_any_label_value
        [where k8Node = "mkNode ''new'' falseLabels" and v = "''false''"
           and provisioners = defaultProvisioners
           and instanceTypesByProvisioner = defaultInstanceTypes
           and e' = quietEnv and nodes = "[]" and ?t0.0 = "[]",
        THEN conjunct2, THEN conjunct2, THEN conjunct2, THEN conjunct2, THEN conjunct2,
        THEN conjunct2] cs
    by (rule mp)
  show ?thesis
    using lv p0 rd pc nr nd vs by simp
qed

section \<open>Properties of a tick\<close>

text \<open>
  C2, for the nodes that candidate selection does not skip beforehand. When the
  provisioners and their instance types are listed without error and some state node that
  names a known provisioner with consolidation enabled and a known instance type has an
  initialized label different from \<^verbatim>\<open>"true"\<close>, \<^verbatim>\<open>ProcessCluster\<close> returns
  \<^verbatim>\<open>NothingToDo\<close> without error, and the only calls of the tick are the listing of the
  provisioners and of the pods of nodes: nothing is launched, cordoned or deleted.
  Every other node is skipped before its initialized label is read: the callback leaves
  its state as it is, whatever the labels of the node, and candidate selection gives the
  same result and makes the same calls as without these nodes.
\<close>

theorem uninitialized_candidate_aborts:
  "(fst (buildProvisionerMap e t) = Inr (provisioners, instanceTypesByProvisioner) \<and>
    n \<in> set (stateNodes e) \<and>
    consolidatable provisioners instanceTypesByProvisioner n \<and>
    lookup (Labels n) LabelNodeInitialized \<noteq> ''true'' \<longrightarrow>
      fst (ProcessCluster e t) = (ProcessResultNothingToDo, None) \<and>
      snd (ProcessCluster e t) = t @ drop (length t) (snd (ProcessCluster e t)) \<and>
      list_all isListCall (drop (length t) (snd (ProcessCluster e t)))) \<and>
   (\<not> consolidatable provisioners instanceTypesByProvisioner m \<longrightarrow>
      visitNode e provisioners instanceTypesByProvisioner m s = s) \<and>
   (fst (buildProvisionerMap e t) = Inr (provisioners, instanceTypesByProvisioner) \<longrightarrow>
      candidateNodes
        (e\<lparr>stateNodes :=
             filter (consolidatable provisioners instanceTypesByProvisioner) (stateNodes e)\<rparr>) t =
      candidateNodes e t)"
proof (intro conjI impI)
  assume a: "fst (buildProvisionerMap e t) = Inr (provisioners, instanceTypesByProvisioner) \<and>
    n \<in> set (stateNodes e) \<and>
    consolidatable provisioners instanceTypesByProvisioner n \<and>
    lookup (Labels n) LabelNodeInitialized \<noteq> ''true''"
  then have c: "fst (candidateNodes e t) = Inr []"
    using candidateNodes_uninitialized [of e t provisioners instanceTypesByProvisioner n]
    by blast
  from candidateNodes_trace [of e t] obtain es where
    es: "snd (candidateNodes e t) = t @ es" "list_all isListCall es" by blast
  with c have "candidateNodes e t = (Inr [], t @ es)"
    by (metis prod.collapse)
  then have p: "ProcessCluster e t = ((ProcessResultNothingToDo, None), t @ es)"
    by (simp add: ProcessCluster_def)
  show "fst (ProcessCluster e t) = (ProcessResultNothingToDo, None)"
    using p by simp
  show "snd (ProcessCluster e t) = t @ drop (length t) (snd (ProcessCluster e t))"
    using p by simp
  show "list_all isListCall (drop (length t) (snd (ProcessCluster e t)))"
    using p es(2) by simp
next
  assume "\<not> consolidatable provisioners instanceTypesByProvisioner m"
  then show "visitNode e provisioners instanceTypesByProvisioner m s = s"
    by (rule visitNode_skips)
next
  assume "fst (buildProvisionerMap e t) = Inr (provisioners, instanceTypesByProvisioner)"
  then show "candidateNodes
        (e\<lparr>stateNodes :=
             filter (consolidatable provisioners instanceTypesByProvisioner) (stateNodes e)\<rparr>) t =
      candidateNodes e t"
    by (rule candidateNodes_filter)
qed

theorem uninitialized_candidate_aborts_witness:
  "startingNode \<in> set (stateNodes startingEnv) \<and>
   lookup (Labels startingNode) LabelNodeInitialized \<noteq> ''true'' \<and>
   fst (ProcessCluster startingEnv []) = (ProcessResultNothingToDo, None) \<and>
   list_all isListCall (snd (ProcessCluster startingEnv [])) \<and>
   snd (ProcessCluster startingEnv []) = [ListProvisioners, ListPods ''empty''] \<and>
   lookup (Labels exoticNode) LabelNodeInitialized \<noteq> ''true'' \<and>
   lookup (Labels foreignNode) LabelNodeInitialized \<noteq> ''true'' \<and>
   candidateNodes (exoticEnv\<lparr>stateNodes := [emptyNode]\<rparr>) [] = candidateNodes exoticEnv [] \<and>
   deletedNames (snd (ProcessCluster exoticEnv [])) = [''empty'']"
proof -
  have m: "startingNode \<in> set (stateNodes startingEnv)"
    by (simp add: startingEnv_def clusterEnv_def quietEnv_def)
  have u: "lookup (Labels startingNode) LabelNodeInitialized \<noteq> ''true''"
    by (simp add: startingNode_def mkNode_def lookup_def LabelNodeInitialized_def
        ProvisionerNameLabelKey_def LabelInstanceTypeStable_def)
  have "\<exists>ps its.
          fst (buildProvisionerMap startingEnv []) = Inr (ps, its) \<and>
          consolidatable ps its startingNode"
    by (simp add: buildProvisionerMap_def consolidatable_def startingEnv_def clusterEnv_def
        startingNode_def example_defs lookup_def BoolValue_def ProvisionerNameLabelKey_def
        LabelInstanceTypeStable_def)
  then obtain ps its where
    b: "fst (buildProvisionerMap startingEnv []) = Inr (ps, its)" and
    c: "consolidatable ps its startingNode"
    by blast
  have tr: "snd (ProcessCluster startingEnv []) = [ListProvisioners, ListPods ''empty'']"
    by (simp add: cluster_eval)
  have p1: "fst (ProcessCluster startingEnv []) = (ProcessResultNothingToDo, None) \<and>
            list_all isListCall (snd (ProcessCluster startingEnv []))"
    using uninitialized_candidate_aborts [of startingEnv "[]" ps its startingNode] b m c u
    by simp
  have ux: "lookup (Labels exoticNode) LabelNodeInitialized \<noteq> ''true''"
    by (simp add: exoticNode_def mkNode_def lookup_def LabelNodeInitialized_def
        ProvisionerNameLabelKey_def LabelInstanceTypeStable_def)
  have uf: "lookup (Labels foreignNode) LabelNodeInitialized \<noteq> ''true''"
    by (simp add: foreignNode_def mkNode_def lookup_def)
  have "\<exists>qs jts.
          fst (buildProvisionerMap exoticEnv []) = Inr (qs, jts) \<and>
          \<not> consolidatable qs jts foreignNode \<and> \<not> consolidatable qs jts exoticNode \<and>
          consolidatable qs jts emptyNode"
    by (simp add: buildProvisionerMap_def consolidatable_def exoticEnv_def clusterEnv_def
        foreignNode_def exoticNode_def emptyNode_def managedLabels_def example_defs lookup_def
        BoolValue_def ProvisionerNameLabelKey_def LabelInstanceTypeStable_def
        LabelNodeInitialized_def)
  then obtain qs jts where
    bx: "fst (buildProvisionerMap exoticEnv []) = Inr (qs, jts)" and
    nf: "\<not> consolidatable qs jts foreignNode" and
    nx: "\<not> consolidatable qs jts exoticNode" and
    ce: "consolidatable qs jts emptyNode"
    by blast
  have sn: "stateNodes exoticEnv = [foreignNode, exoticNode, emptyNode]"
    by (simp add: exoticEnv_def clusterEnv_def quietEnv_def)
  have v: "visitNode exoticEnv qs jts exoticNode ([], False, [ListProvisioners]) =
             ([], False, [ListProvisioners])"
    using uninitialized_candidate_aborts [of exoticEnv "[]" qs jts _ exoticNode] nx by blast
  have f: "candidateNodes (exoticEnv\<lparr>stateNodes := [emptyNode]\<rparr>) [] =
           candidateNodes exoticEnv []"
    using uninitialized_candidate_aborts [of exoticEnv "[]" qs jts] bx nf nx ce sn by simp
  show ?thesis
    using m u tr p1 ux uf f by (simp add: exotic_cluster_trace)
qed

text \<open>
  A node without a provisioner label is skipped before its initialized label is read: with
  such a node, not initialized, beside an empty initialized candidate, the tick deletes the
  candidate.
\<close>

theorem uninitialized_unmanaged_counterexample:
  "foreignNode \<in> set (stateNodes foreignEnv) \<and>
   lookup (Labels foreignNode) LabelNodeInitialized \<noteq> ''true'' \<and>
   fst (ProcessCluster foreignEnv []) \<noteq>
     (ProcessResultNothingToDo, None) \<and>
   deletedNames (snd (ProcessCluster foreignEnv [])) =
     [''empty'']"
  unfolding foreign_cluster_trace
  by (simp add: foreignEnv_def clusterEnv_def quietEnv_def foreignNode_def mkNode_def
      lookup_def)

text \<open>
  C9. When some candidate has no reschedulable pod, \<^verbatim>\<open>ProcessCluster\<close> returns
  \<^verbatim>\<open>Consolidated\<close>; after candidate selection it records and issues one delete for
  every empty candidate, in their order, and does nothing else: the PDBs are not listed
  and the gate is not asked, so neither a deletion timestamp nor the PDB limits matter.
  A node whose pods are all owned by the node, owned by a daemonset or terminal has no
  reschedulable pod. (A delete that fails is logged and the loop goes on.)
\<close>

theorem empty_candidates_deleted:
  assumes "candidateNodes e t = (Inr cs, t1)"
      and "filter (\<lambda>c. pods c = []) cs \<noteq> []"
  shows "fst (ProcessCluster e t) = (ProcessResultConsolidated, None) \<and>
         snd (ProcessCluster e t) = t1 @ drop (length t1) (snd (ProcessCluster e t)) \<and>
         deletedNames (drop (length t1) (snd (ProcessCluster e t))) =
           map (\<lambda>c. Name (node c)) (filter (\<lambda>c. pods c = []) cs) \<and>
         list_all (\<lambda>ev. isDelete ev \<or> (\<exists>n. ev = Recorded (TerminatingNodeForConsolidation n)))
           (drop (length t1) (snd (ProcessCluster e t))) \<and>
         ListPodDisruptionBudgets \<notin> set (drop (length t) (snd (ProcessCluster e t))) \<and>
         (listPods e t' nodeName = Inr items \<and>
          (\<forall>p \<in> set items. IsOwnedByNode p \<or> IsOwnedByDaemonSet p \<or> IsTerminal p) \<longrightarrow>
            fst (getNodePods e nodeName t') = Inr [])"
proof -
  let ?empty = "filter (\<lambda>c. pods c = []) cs"
  from assms(2) have ne: "cs \<noteq> []" by auto
  have p: "ProcessCluster e t =
     ((ProcessResultConsolidated, None), deleteOldNodes e (map node ?empty) t1)"
    using assms ne
    by (simp add: ProcessCluster_def performConsolidation_def emptyAction_def Let_def)
  from deleteOldNodes_events [of e "map node ?empty" t1] obtain es where
    es: "deleteOldNodes e (map node ?empty) t1 = t1 @ es"
        "deletedNames es = map Name (map node ?empty)"
        "\<forall>ev \<in> set es. isDelete ev \<or> (\<exists>n. ev = Recorded (TerminatingNodeForConsolidation n))"
    by blast
  have "deletedNames es = map (\<lambda>c. Name (node c)) ?empty"
    using es(2) by (simp add: comp_def)
  moreover from candidateNodes_trace [of e t] assms(1) obtain es0 where
    es0: "t1 = t @ es0" "list_all isListCall es0" by auto
  have "ListPodDisruptionBudgets \<notin> set es0"
    using es0(2) by (auto simp: list_all_iff)
  moreover have "ListPodDisruptionBudgets \<notin> set es"
    using es(3) by auto
  ultimately show ?thesis
    using p es(1,3) es0(1) getNodePods_only_skipped [of e t' nodeName items]
    by (simp add: list_all_iff)
qed

theorem empty_candidates_deleted_witness:
  "canBeTerminated (mkCandidate goneNode (mkType ''large'' 3) []) (\<lambda>ps. False) \<noteq> None \<and>
   fst (getNodePods guardedEnv ''gone'' []) = Inr [] \<and>
   fst (ProcessCluster guardedEnv []) = (ProcessResultConsolidated, None) \<and>
   deletedNames (drop 3 (snd (ProcessCluster guardedEnv []))) = [''gone''] \<and>
   ListPodDisruptionBudgets \<notin> set (snd (ProcessCluster guardedEnv [])) \<and>
   snd (ProcessCluster guardedEnv []) =
     [ListProvisioners, ListPods ''gone'', ListPods ''busy'',
      Recorded (TerminatingNodeForConsolidation goneNode), KubeDelete ''gone'' None]"
proof -
  have f: "filter (\<lambda>c. pods c = [])
             [mkCandidate goneNode (mkType ''large'' 3) [],
              mkCandidate busyNode (mkType ''large'' 3) [mkPod ''p'']] \<noteq> []"
    by (simp add: mkCandidate_def)
  have l: "listPods guardedEnv [] ''gone'' = Inr [daemonPod] \<and>
           (\<forall>p \<in> set [daemonPod]. IsOwnedByNode p \<or> IsOwnedByDaemonSet p \<or> IsTerminal p)"
    by (simp add: guardedEnv_def clusterEnv_def quietEnv_def daemonPod_def)
  have g: "canBeTerminated (mkCandidate goneNode (mkType ''large'' 3) []) (\<lambda>ps. False) \<noteq> None"
    by (simp add: canBeTerminated_def mkCandidate_def goneNode_def mkNode_def IsZero_def)
  have n: "map (\<lambda>c. Name (node c))
             (filter (\<lambda>c. pods c = [])
                [mkCandidate goneNode (mkType ''large'' 3) [],
                 mkCandidate busyNode (mkType ''large'' 3) [mkPod ''p'']]) = [''gone'']"
    by (simp add: mkCandidate_def goneNode_def mkNode_def)
  show ?thesis
    using empty_candidates_deleted [OF guarded_candidates f, of "[]" "''gone''" "[daemonPod]"]
      l g n guarded_trace
    by simp
qed

text \<open>
  C6. In a tick whose candidates all have pods and whose PDB limits are built without
  error, the candidates are examined in the order that \<^verbatim>\<open>sort.Slice\<close> gives them:
  ascending disruption cost, older creation timestamp first among equal costs, and any
  order among candidates equal in both (the sort is not stable, and only its promise is
  assumed). \<^verbatim>\<open>ProcessCluster\<close> performs the action of the first candidate of that order
  that the gate lets through and for which the planner answers \<^verbatim>\<open>Delete\<close> or
  \<^verbatim>\<open>Replace\<close>, and returns; this candidate is least in cost and age among all such
  candidates, and with no such candidate the tick does nothing. At most one delete is
  issued in the tick.
\<close>

theorem first_consolidatable_in_cost_order:
  assumes "candidateNodes e t = (Inr cs, t1)"
      and "cs \<noteq> []"
      and "\<forall>c \<in> set cs. pods c \<noteq> []"
      and "newPDBLimits e t1 = Inr pdbs"
      and "sortsBy (sortSlice e) byNodeDisruptionCost cs"
  shows "mset (sortSlice e byNodeDisruptionCost cs) = mset cs \<and>
         sorted_wrt costOrder (sortSlice e byNodeDisruptionCost cs) \<and>
         ProcessCluster e t =
           (case find (selectable e pdbs) (sortSlice e byNodeDisruptionCost cs) of
              None \<Rightarrow> ((ProcessResultNothingToDo, None), t1 @ [ListPodDisruptionBudgets])
            | Some c \<Rightarrow>
                ((ProcessResultConsolidated, None),
                 performConsolidation e (nodeConsolidationActions e c)
                   (t1 @ [ListPodDisruptionBudgets]))) \<and>
         (find (selectable e pdbs) (sortSlice e byNodeDisruptionCost cs) = Some c \<longrightarrow>
            c \<in> set cs \<and> selectable e pdbs c \<and>
            (\<forall>c' \<in> set cs. selectable e pdbs c' \<longrightarrow> costOrder c c')) \<and>
         ((find (selectable e pdbs) (sortSlice e byNodeDisruptionCost cs) = None) =
            (\<forall>c' \<in> set cs. \<not> selectable e pdbs c')) \<and>
         length (deletedNames (drop (length t1) (snd (ProcessCluster e t)))) \<le> 1"
proof -
  let ?sorted = "sortSlice e byNodeDisruptionCost cs"
  let ?t2 = "t1 @ [ListPodDisruptionBudgets]"
  have ms: "mset ?sorted = mset cs"
    using assms(5) by (simp add: sortsBy_def)
  then have st: "set ?sorted = set cs"
    by (metis set_mset_mset)
  have so: "sorted_wrt costOrder ?sorted"
    using assms(5) by (simp add: sortsBy_def costOrder_fun)
  have f: "filter (\<lambda>c. pods c = []) cs = []"
    using assms(3) by (simp add: filter_empty_conv)
  have p: "ProcessCluster e t = consolidateLoop e pdbs ?sorted ?t2"
    using assms(1,2,4) f
    by (simp add: ProcessCluster_def newPDBLimitsCall_def Let_def)
  have q: "ProcessCluster e t =
           (case find (selectable e pdbs) ?sorted of
              None \<Rightarrow> ((ProcessResultNothingToDo, None), ?t2)
            | Some c \<Rightarrow>
                ((ProcessResultConsolidated, None),
                 performConsolidation e (nodeConsolidationActions e c) ?t2))"
    by (simp add: p consolidateLoop_find)
  have least: "find (selectable e pdbs) ?sorted = Some c \<longrightarrow>
            c \<in> set cs \<and> selectable e pdbs c \<and>
            (\<forall>c' \<in> set cs. selectable e pdbs c' \<longrightarrow> costOrder c c')"
  proof
    assume s: "find (selectable e pdbs) ?sorted = Some c"
    then have "c \<in> set ?sorted" and sel: "selectable e pdbs c"
      by (auto simp: find_Some_iff)
    then have mem: "c \<in> set cs" using st by simp
    have "costOrder c c'" if "c' \<in> set cs" and "selectable e pdbs c'" for c'
    proof -
      from that(1) st have "c' \<in> set ?sorted" by simp
      with s so that(2) show ?thesis
        using find_sorted_least [of "selectable e pdbs" ?sorted c costOrder c'] costOrder_refl
        by blast
    qed
    with mem sel show "c \<in> set cs \<and> selectable e pdbs c \<and>
            (\<forall>c' \<in> set cs. selectable e pdbs c' \<longrightarrow> costOrder c c')"
      by blast
  qed
  have none: "(find (selectable e pdbs) ?sorted = None) =
            (\<forall>c' \<in> set cs. \<not> selectable e pdbs c')"
    using st by (auto simp: find_None_iff)
  have d: "length (deletedNames (drop (length t1) (snd (ProcessCluster e t)))) \<le> 1"
  proof (cases "find (selectable e pdbs) ?sorted")
    case None
    with q show ?thesis by simp
  next
    case (Some c)
    then have "selectable e pdbs c" by (auto simp: find_Some_iff)
    then have o: "oldNodes (nodeConsolidationActions e c) = [node c]"
      using planner_oldNodes [of e c] by (simp add: selectable_def)
    from performConsolidation_extends [of e "nodeConsolidationActions e c" ?t2] obtain es where
      es: "performConsolidation e (nodeConsolidationActions e c) ?t2 = ?t2 @ es" by blast
    from performConsolidation_single_delete [OF o, of ?t2 e] es
    have "length (deletedNames es) \<le> 1" by simp
    with q Some es show ?thesis by simp
  qed
  show ?thesis
    using ms so q least none d by blast
qed

theorem first_consolidatable_in_cost_order_witness:
  "sortSlice tickEnv byNodeDisruptionCost [candB, candA, candC] = [candC, candA, candB] \<and>
   \<not> selectable tickEnv (\<lambda>ps. True) candC \<and>
   selectable tickEnv (\<lambda>ps. True) candA \<and>
   selectable tickEnv (\<lambda>ps. True) candB \<and>
   costOrder candA candB \<and>
   ProcessCluster tickEnv [] =
     ((ProcessResultConsolidated, None),
      [ListProvisioners, ListPods ''b'', ListPods ''a'', ListPods ''c'', ListPodDisruptionBudgets,
       Recorded (TerminatingNodeForConsolidation (agedNode ''a'' 70)), KubeDelete ''a'' None]) \<and>
   deletedNames (snd (ProcessCluster twinEnv [])) = [''x''] \<and>
   deletedNames (snd (ProcessCluster twinEnvTurned [])) = [''y'']"
proof -
  have ne: "[candB, candA, candC] \<noteq> []" by simp
  have np: "\<forall>c \<in> set [candB, candA, candC]. pods c \<noteq> []"
    by (simp add: tick_defs mkCandidate_def)
  have pdb: "newPDBLimits tickEnv [ListProvisioners, ListPods ''b'', ListPods ''a'', ListPods ''c''] =
     Inr (\<lambda>ps. True)"
    by (simp add: tickEnv_def clusterEnv_def quietEnv_def)
  have srt: "sortsBy (sortSlice tickEnv) byNodeDisruptionCost [candB, candA, candC]"
    using sortsBy_insertionSort [of "[candB, candA, candC]"]
    by (simp add: tickEnv_def clusterEnv_def quietEnv_def)
  note th = first_consolidatable_in_cost_order [OF tick_candidates ne np pdb srt, of candA]
  have pc: "ProcessCluster tickEnv [] =
     ((ProcessResultConsolidated, None),
      [ListProvisioners, ListPods ''b'', ListPods ''a'', ListPods ''c'', ListPodDisruptionBudgets,
       Recorded (TerminatingNodeForConsolidation (agedNode ''a'' 70)), KubeDelete ''a'' None])"
    using th by (simp add: tick_sorted tick_selectable tick_actions tick_delete)
  have fa: "find (selectable tickEnv (\<lambda>ps. True))
              (sortSlice tickEnv byNodeDisruptionCost [candB, candA, candC]) = Some candA"
    by (simp add: tick_sorted tick_selectable)
  have co: "costOrder candA candB"
    using th fa tick_selectable(3) by simp
  have xne: "[candX, candY] \<noteq> []" by simp
  have xnp: "\<forall>c \<in> set [candX, candY]. pods c \<noteq> []"
    by (simp add: twin_defs mkCandidate_def)
  have xpdb: "newPDBLimits twinEnv [ListProvisioners, ListPods ''x'', ListPods ''y''] =
     Inr (\<lambda>ps. True)"
    by (simp add: twinEnv_def clusterEnv_def quietEnv_def)
  have xsrt: "sortsBy (sortSlice twinEnv) byNodeDisruptionCost [candX, candY]"
    using sortsBy_insertionSort [of "[candX, candY]"]
    by (simp add: twinEnv_def clusterEnv_def quietEnv_def)
  have x: "deletedNames (snd (ProcessCluster twinEnv [])) = [''x'']"
    using first_consolidatable_in_cost_order [OF twin_candidates(1) xne xnp xpdb xsrt]
    by (simp add: twin_sorted twin_selectable twin_delete)
  have ypdb: "newPDBLimits twinEnvTurned [ListProvisioners, ListPods ''x'', ListPods ''y''] =
     Inr (\<lambda>ps. True)"
    by (simp add: twinEnvTurned_def twinEnv_def clusterEnv_def quietEnv_def)
  have ysrt: "sortsBy (sortSlice twinEnvTurned) byNodeDisruptionCost [candX, candY]"
    using sortsBy_reverseTiesSort [of "[candX, candY]"]
    by (simp add: twinEnvTurned_def)
  have y: "deletedNames (snd (ProcessCluster twinEnvTurned [])) = [''y'']"
    using first_consolidatable_in_cost_order [OF twin_candidates(2) xne xnp ypdb ysrt]
    by (simp add: twin_sorted twin_selectable twin_delete)
  show ?thesis
    using pc co x y by (simp add: tick_sorted tick_selectable)
qed

end
